theory Spec2Isabelle
  imports Complex_Main "HOL-Library.AList"
begin

section \<open>Values\<close>

text \<open>
  A numeric value of an extracted table is a float that may be NaN: \<open>None\<close> is NaN,
  \<open>Some x\<close> a finite number. Finite floats are idealised as exact reals (no rounding,
  no overflow, no signed zero). A growth rate is a float that may also be \<open>np.inf\<close>.
\<close>

type_synonym num = "real option"

datatype pyfloat = Fin real | PosInf | NaN

datatype pyerror = KeyError | ValueError | AttributeError | TypeError | DivisionByZero | FrameMask

definition notna :: "num \<Rightarrow> bool" where
  "notna v = (case v of None \<Rightarrow> False | Some x \<Rightarrow> True)"

definition isna :: "num \<Rightarrow> bool" where
  "isna v = (case v of None \<Rightarrow> True | Some x \<Rightarrow> False)"

text \<open>Float arithmetic: NaN propagates through every operation.\<close>

fun fsub :: "num \<Rightarrow> num \<Rightarrow> num" where
  "fsub (Some a) (Some b) = Some (a - b)"
| "fsub a b = None"

fun fmul :: "num \<Rightarrow> num \<Rightarrow> num" where
  "fmul (Some a) (Some b) = Some (a * b)"
| "fmul a b = None"

text \<open>
  The division of line 378. numpy would answer a zero divisor with inf or NaN and a warning;
  the model records that event as the result \<open>Inl DivisionByZero\<close>, so that a
  division by zero is visible in the result of every function that performs one.
\<close>

definition fdiv :: "num \<Rightarrow> num \<Rightarrow> pyerror + num" where
  "fdiv a b =
     (case b of
        None \<Rightarrow> Inr None
      | Some y \<Rightarrow> if y = 0 then Inl DivisionByZero
                 else (case a of None \<Rightarrow> Inr None | Some x \<Rightarrow> Inr (Some (x / y))))"

definition of_num :: "num \<Rightarrow> pyfloat" where
  "of_num v = (case v of None \<Rightarrow> NaN | Some x \<Rightarrow> Fin x)"

section \<open>Growth rate (calculate_growth_rates, lines 376-382)\<close>

definition growth_rate :: "num \<Rightarrow> num \<Rightarrow> pyerror + pyfloat" where
  "growth_rate last_year_value this_year_value =
     (if notna last_year_value \<and> last_year_value \<noteq> Some 0 then
        (case fdiv (fsub this_year_value last_year_value) last_year_value of
           Inl e \<Rightarrow> Inl e
         | Inr q \<Rightarrow> Inr (of_num (fmul q (Some 100))))
      else if notna this_year_value \<and> this_year_value \<noteq> Some 0
              \<and> (isna last_year_value \<or> last_year_value = Some 0) then Inr PosInf
      else Inr NaN)"

section \<open>Extracted tables\<close>

text \<open>
  The frame that process_excel_file builds (line 259): a list of column labels and a list of
  rows. A cell is a string (the city and county columns) or a float (an indicator column).
\<close>

datatype dfcell = S string | F num

record dataframe =
  columns :: "string list"
  rows :: "dfcell list list"

text \<open>
  The labels of lines 30-31 as UTF-8 bytes: two CJK characters, and five.
\<close>

definition OUTPUT_CITY_COL_NAME :: string where
  "OUTPUT_CITY_COL_NAME = [CHR 0xE5, CHR 0x9C, CHR 0xB0, CHR 0xE5, CHR 0xB8, CHR 0x82]"

definition OUTPUT_COUNTY_COL_NAME :: string where
  "OUTPUT_COUNTY_COL_NAME =
     [CHR 0xE5, CHR 0x8E, CHR 0xBF, CHR 0xE7, CHR 0xBA, CHR 0xA7, CHR 0xE5, CHR 0xB8, CHR 0x82,
      CHR 0xE3, CHR 0x80, CHR 0x81, CHR 0xE5, CHR 0x8C, CHR 0xBA]"

text \<open>
  The library functions that the source calls on strings and that are not part of the
  repository are parameters of the model: \<open>str_num\<close> is Python's \<open>str\<close> on a number,
  \<open>to_num\<close> is what \<open>pd.to_numeric(s, errors='coerce')\<close> makes of a string (None: NaN).
\<close>

record pylib =
  str_num :: "real \<Rightarrow> string"
  to_num :: "string \<Rightarrow> num"

definition to_numeric :: "pylib \<Rightarrow> dfcell \<Rightarrow> num" where
  "to_numeric L c = (case c of F v \<Rightarrow> v | S s \<Rightarrow> to_num L s)"

text \<open>Where a label occurs among the columns: \<open>df[label]\<close> is a series only when it occurs once.\<close>

definition positions :: "string list \<Rightarrow> string \<Rightarrow> nat list" where
  "positions cs l = filter (\<lambda>i. cs ! i = l) [0..<length cs]"

definition cell_at :: "dfcell list \<Rightarrow> nat \<Rightarrow> dfcell" where
  "cell_at r i = (if i < length r then r ! i else F None)"

text \<open>
  \<open>df[df[OUTPUT_COUNTY_COL_NAME] == county]\<close>: the rows whose county cell equals
  \<open>county\<close>, a value of the county column of the previous year (a string in every frame
  that process_excel_file builds); NaN equals nothing. A missing label raises KeyError. A label that occurs more than once makes the
  mask a frame instead of a series; that case is outside the model and is the result
  \<open>Inl FrameMask\<close>.
\<close>

fun cell_eq :: "dfcell \<Rightarrow> dfcell \<Rightarrow> bool" where
  "cell_eq (S s) (S t) = (s = t)"
| "cell_eq (F (Some x)) (F (Some y)) = (x = y)"
| "cell_eq a b = False"

definition rows_of_county :: "dataframe \<Rightarrow> dfcell \<Rightarrow> pyerror + dfcell list list" where
  "rows_of_county df county =
     (case positions (columns df) OUTPUT_COUNTY_COL_NAME of
        [] \<Rightarrow> Inl KeyError
      | [i] \<Rightarrow> Inr (filter (\<lambda>r. cell_eq (cell_at r i) county) (rows df))
      | i # j # js \<Rightarrow> Inl FrameMask)"

text \<open>
  \<open>pd.to_numeric(row[indicator].values[0], errors='coerce')\<close> for both years (lines 369-370)
  and the reads of lines 373-374. A missing label raises KeyError at its line; a label that
  occurs twice gives an array, whose truth value the conditional of line 373 or 374 refuses
  with ValueError.
\<close>

definition first_values :: "pylib \<Rightarrow> dataframe \<Rightarrow> dataframe \<Rightarrow> string \<Rightarrow>
    dfcell list \<Rightarrow> dfcell list \<Rightarrow> pyerror + (num \<times> num)" where
  "first_values L df_last_year df_this_year indicator last_row this_row =
     (case positions (columns df_last_year) indicator of
        [] \<Rightarrow> Inl KeyError
      | i # is \<Rightarrow>
          (case positions (columns df_this_year) indicator of
             [] \<Rightarrow> Inl KeyError
           | j # js \<Rightarrow>
               if is = [] \<and> js = []
               then Inr (to_numeric L (cell_at last_row i), to_numeric L (cell_at this_row j))
               else Inl ValueError))"

text \<open>
  One (indicator, county) pair, lines 364-384: None when a year has no row of that county,
  otherwise the displayed current value, the displayed previous value and the growth rate.
\<close>

definition or_zero :: "num \<Rightarrow> real" where
  "or_zero v = (case v of None \<Rightarrow> 0 | Some x \<Rightarrow> x)"

definition pair_entry :: "pylib \<Rightarrow> dataframe \<Rightarrow> dataframe \<Rightarrow> string \<Rightarrow> dfcell \<Rightarrow>
    pyerror + (real \<times> real \<times> pyfloat) option" where
  "pair_entry L df_last_year df_this_year indicator county =
     (case rows_of_county df_last_year county of
        Inl e \<Rightarrow> Inl e
      | Inr last_year_row \<Rightarrow>
          (case rows_of_county df_this_year county of
             Inl e \<Rightarrow> Inl e
           | Inr this_year_row \<Rightarrow>
               (case (last_year_row, this_year_row) of
                  (lr # lrs, tr # trs) \<Rightarrow>
                    (case first_values L df_last_year df_this_year indicator lr tr of
                       Inl e \<Rightarrow> Inl e
                     | Inr (last_year_value, this_year_value) \<Rightarrow>
                         (case growth_rate last_year_value this_year_value of
                            Inl e \<Rightarrow> Inl e
                          | Inr g \<Rightarrow>
                              Inr (Some (or_zero this_year_value, or_zero last_year_value, g))))
                | _ \<Rightarrow> Inr None)))"

record indicator_data =
  name :: string
  current_values :: "dfcell \<rightharpoonup> real"
  previous_values :: "dfcell \<rightharpoonup> real"
  growth_rates :: "dfcell \<rightharpoonup> pyfloat"

definition new_indicator_data :: "string \<Rightarrow> indicator_data" where
  "new_indicator_data indicator =
     \<lparr>name = indicator, current_values = Map.empty, previous_values = Map.empty,
      growth_rates = Map.empty\<rparr>"

fun county_loop :: "pylib \<Rightarrow> dataframe \<Rightarrow> dataframe \<Rightarrow> string \<Rightarrow> dfcell list \<Rightarrow>
    indicator_data \<Rightarrow> pyerror + indicator_data" where
  "county_loop L dl dt indicator [] d = Inr d"
| "county_loop L dl dt indicator (county # counties) d =
     (case pair_entry L dl dt indicator county of
        Inl e \<Rightarrow> Inl e
      | Inr None \<Rightarrow> county_loop L dl dt indicator counties d
      | Inr (Some (cur, prev, g)) \<Rightarrow>
          county_loop L dl dt indicator counties
            (d\<lparr>current_values := (current_values d)(county \<mapsto> cur),
               previous_values := (previous_values d)(county \<mapsto> prev),
               growth_rates := (growth_rates d)(county \<mapsto> g)\<rparr>))"

text \<open>
  The result dictionary keeps insertion order, and a key stored again keeps its place:
  an association list with \<open>AList.update\<close>.
\<close>

type_synonym result_data = "(string \<times> indicator_data) list"

fun indicator_loop :: "pylib \<Rightarrow> dataframe \<Rightarrow> dataframe \<Rightarrow> string list \<Rightarrow> dfcell list \<Rightarrow>
    result_data \<Rightarrow> pyerror + result_data" where
  "indicator_loop L dl dt [] counties res = Inr res"
| "indicator_loop L dl dt (indicator # indicators) counties res =
     (case county_loop L dl dt indicator counties (new_indicator_data indicator) of
        Inl e \<Rightarrow> Inl e
      | Inr d \<Rightarrow> indicator_loop L dl dt indicators counties (AList.update indicator d res))"

definition calculate_growth_rates :: "pylib \<Rightarrow> dataframe \<Rightarrow> dataframe \<Rightarrow> string list \<Rightarrow>
    dfcell list \<Rightarrow> pyerror + result_data" where
  "calculate_growth_rates L df_last_year df_this_year indicators counties =
     indicator_loop L df_last_year df_this_year indicators counties []"

text \<open>A value that is NaN or zero: "absent/zero".\<close>

definition absent_or_zero :: "num \<Rightarrow> bool" where
  "absent_or_zero v = (case v of None \<Rightarrow> True | Some x \<Rightarrow> x = 0)"

text \<open>Reading one growth rate out of the result of calculate_growth_rates.\<close>

definition growth_of :: "pyerror + result_data \<Rightarrow> string \<Rightarrow> dfcell \<Rightarrow> pyfloat option" where
  "growth_of r indicator county =
     (case r of
        Inl e \<Rightarrow> None
      | Inr res \<Rightarrow> (case map_of res indicator of None \<Rightarrow> None | Some d \<Rightarrow> growth_rates d county))"

section \<open>Raw tables\<close>

text \<open>
  The frame that \<open>pd.read_excel(path, header=None, skiprows=n)\<close> returns: rows of untyped
  cells. \<open>Blank\<close> is an empty cell (NaN, the only value with \<open>pd.notna\<close> false), \<open>Num\<close> a
  number, \<open>Str\<close> a text. A frame is rectangular: a row shorter than the widest one is
  read as padded with blanks. Reading the file may raise; then there is no frame (None).
\<close>

datatype cell = Blank | Num real | Str string

type_synonym table = "cell list list"

definition shape0 :: "table \<Rightarrow> nat" where
  "shape0 df = length df"

definition shape1 :: "table \<Rightarrow> nat" where
  "shape1 df = foldr (\<lambda>r m. max (length r) m) df 0"

definition iloc_cell :: "cell list \<Rightarrow> nat \<Rightarrow> cell" where
  "iloc_cell row i = (if i < length row then row ! i else Blank)"

definition cell_notna :: "cell \<Rightarrow> bool" where
  "cell_notna c = (case c of Blank \<Rightarrow> False | Num x \<Rightarrow> True | Str s \<Rightarrow> True)"

definition py_str :: "pylib \<Rightarrow> cell \<Rightarrow> string" where
  "py_str L c = (case c of Blank \<Rightarrow> ''nan'' | Num x \<Rightarrow> str_num L x | Str s \<Rightarrow> s)"

text \<open>\<open>pd.to_numeric(value, errors='coerce')\<close> on a cell of the raw table.\<close>

definition cell_to_numeric :: "pylib \<Rightarrow> cell \<Rightarrow> num" where
  "cell_to_numeric L c = (case c of Blank \<Rightarrow> None | Num x \<Rightarrow> Some x | Str s \<Rightarrow> to_num L s)"

text \<open>\<open>s.replace('\n', '')\<close>: every line feed (byte 10) is dropped.\<close>

definition remove_newlines :: "string \<Rightarrow> string" where
  "remove_newlines s = filter (\<lambda>c. c \<noteq> CHR 0x0A) s"

text \<open>
  \<open>s.strip()\<close>. A Python string is a sequence of code points; the model holds its UTF-8
  bytes. \<open>WHITESPACE\<close> lists the encodings of the 29 code points that Python counts as
  whitespace: the ASCII ones (tab to carriage return, 0x1C-0x1F, space) and U+0085, U+00A0,
  U+1680, U+2000-U+200A, U+2028, U+2029, U+202F, U+205F, U+3000. In UTF-8 no encoding of a
  character is a prefix or a suffix of the encoding of another one, so removing these byte
  sequences from both ends removes exactly the whitespace characters there.
\<close>

definition WHITESPACE :: "string list" where
  "WHITESPACE =
     [[CHR 0x09], [CHR 0x0A], [CHR 0x0B], [CHR 0x0C], [CHR 0x0D],
      [CHR 0x1C], [CHR 0x1D], [CHR 0x1E], [CHR 0x1F], [CHR 0x20],
      [CHR 0xC2, CHR 0x85], [CHR 0xC2, CHR 0xA0],
      [CHR 0xE1, CHR 0x9A, CHR 0x80],
      [CHR 0xE2, CHR 0x80, CHR 0x80], [CHR 0xE2, CHR 0x80, CHR 0x81],
      [CHR 0xE2, CHR 0x80, CHR 0x82], [CHR 0xE2, CHR 0x80, CHR 0x83],
      [CHR 0xE2, CHR 0x80, CHR 0x84], [CHR 0xE2, CHR 0x80, CHR 0x85],
      [CHR 0xE2, CHR 0x80, CHR 0x86], [CHR 0xE2, CHR 0x80, CHR 0x87],
      [CHR 0xE2, CHR 0x80, CHR 0x88], [CHR 0xE2, CHR 0x80, CHR 0x89],
      [CHR 0xE2, CHR 0x80, CHR 0x8A],
      [CHR 0xE2, CHR 0x80, CHR 0xA8], [CHR 0xE2, CHR 0x80, CHR 0xA9],
      [CHR 0xE2, CHR 0x80, CHR 0xAF], [CHR 0xE2, CHR 0x81, CHR 0x9F],
      [CHR 0xE3, CHR 0x80, CHR 0x80]]"

text \<open>The length of the first of \<open>pats\<close> that \<open>s\<close> starts with, 0 when it starts with none.\<close>

definition match_len :: "string list \<Rightarrow> string \<Rightarrow> nat" where
  "match_len pats s =
     (case find (\<lambda>w. take (length w) s = w) pats of None \<Rightarrow> 0 | Some w \<Rightarrow> length w)"

text \<open>
  Dropping from the front every leading occurrence of one of \<open>pats\<close>; \<open>k\<close> counts the
  bytes of the current occurrence that are still to drop.
\<close>

fun skip_matches :: "string list \<Rightarrow> nat \<Rightarrow> string \<Rightarrow> string" where
  "skip_matches pats k [] = []"
| "skip_matches pats (Suc k) (c # cs) = skip_matches pats k cs"
| "skip_matches pats 0 (c # cs) =
     (case match_len pats (c # cs) of 0 \<Rightarrow> c # cs | Suc k \<Rightarrow> skip_matches pats k cs)"

definition lstrip :: "string \<Rightarrow> string" where
  "lstrip s = skip_matches WHITESPACE 0 s"

definition rstrip :: "string \<Rightarrow> string" where
  "rstrip s = rev (skip_matches (map rev WHITESPACE) 0 (rev s))"

definition strip :: "string \<Rightarrow> string" where
  "strip s = rstrip (lstrip s)"

text \<open>\<open>range(start, stop, 2)\<close>.\<close>

definition range_by_2 :: "nat \<Rightarrow> nat \<Rightarrow> nat list" where
  "range_by_2 start stop = map (\<lambda>k. start + 2 * k) [0..<(stop - start + 1) div 2]"

section \<open>extract_indicators_from_template (lines 114-153)\<close>

text \<open>The loop of lines 143-148 over the header row, appending to the two result lists.\<close>

fun header_loop :: "pylib \<Rightarrow> cell list \<Rightarrow> nat list \<Rightarrow> string list \<times> nat list \<Rightarrow>
    string list \<times> nat list" where
  "header_loop L indicator_row [] acc = acc"
| "header_loop L indicator_row (i # is) (indicators, value_columns) =
     (let indicator = iloc_cell indicator_row i in
      if cell_notna indicator
      then header_loop L indicator_row is
             (indicators @ [remove_newlines (py_str L indicator)], value_columns @ [i])
      else header_loop L indicator_row is (indicators, value_columns))"

text \<open>
  \<open>file\<close> is the frame read at line 129, None when reading raises (the handler of line 151
  then returns two empty lists). A negative index counts from the last row, as \<open>iloc\<close>
  does, and raises IndexError (handled the same way) when it reaches before the first row.
\<close>

definition extract_indicators_from_template :: "pylib \<Rightarrow> table option \<Rightarrow> int \<Rightarrow>
    string list \<times> nat list" where
  "extract_indicators_from_template L file header_row_idx =
     (case file of
        None \<Rightarrow> ([], [])
      | Some df \<Rightarrow>
          if header_row_idx \<ge> int (shape0 df) then ([], [])
          else if header_row_idx < - int (shape0 df) then ([], [])
          else
            (let indicator_row =
                   df ! nat (if header_row_idx < 0 then header_row_idx + int (shape0 df)
                             else header_row_idx)
             in header_loop L indicator_row (range_by_2 4 (shape1 df)) ([], [])))"

section \<open>process_excel_file (lines 155-311)\<close>

text \<open>
  What the caller gets is the returned pair (frame or None, indicator names); what the
  operator sees is the error dialog, told apart by its title: "indicator error" (line 193),
  "data error" (line 245), "processing error" (line 310, the handler of any exception).
\<close>

datatype dialog = IndicatorError | DataError | ProcessError

type_synonym outcome = "(dataframe option \<times> string list) \<times> dialog option"

definition city_name_of :: "pylib \<Rightarrow> nat \<Rightarrow> cell list \<Rightarrow> string" where
  "city_name_of L ncols row =
     (let city_value = (if ncols > 2 then iloc_cell row 2 else Blank) in
      if cell_notna city_value \<and> strip (py_str L city_value) \<noteq> []
      then strip (py_str L city_value) else [])"

definition county_name_of :: "pylib \<Rightarrow> nat \<Rightarrow> cell list \<Rightarrow> string" where
  "county_name_of L ncols row =
     (let county_value = (if ncols > 3 then iloc_cell row 3 else Blank) in
      if cell_notna county_value then strip (py_str L county_value) else [])"

text \<open>Lines 225-236: the row appended for one county.\<close>

definition row_data :: "pylib \<Rightarrow> nat \<Rightarrow> string \<Rightarrow> nat list \<Rightarrow> cell list \<Rightarrow> string \<Rightarrow>
    dfcell list" where
  "row_data L ncols city_filter value_columns row county_name =
     [S city_filter, S county_name] @
     map (\<lambda>value_col. if value_col < ncols then F (cell_to_numeric L (iloc_cell row value_col))
                       else F None) value_columns"

text \<open>
  The scan of lines 207-238. The state is \<open>current_city\<close> (None before the first city
  cell) and the rows collected so far.
\<close>

fun row_scan :: "pylib \<Rightarrow> nat \<Rightarrow> string \<Rightarrow> nat list \<Rightarrow> table \<Rightarrow> string option \<Rightarrow>
    dfcell list list \<Rightarrow> dfcell list list" where
  "row_scan L ncols city_filter value_columns [] current_city city_data = city_data"
| "row_scan L ncols city_filter value_columns (row # rest) current_city city_data =
     (let city_name = city_name_of L ncols row;
          current_city = (if city_name \<noteq> [] then Some city_name else current_city)
      in if current_city = Some city_filter then
           (let county_name = county_name_of L ncols row in
            if county_name = []
            then row_scan L ncols city_filter value_columns rest current_city city_data
            else row_scan L ncols city_filter value_columns rest current_city
                   (city_data @ [row_data L ncols city_filter value_columns row county_name]))
         else row_scan L ncols city_filter value_columns rest current_city city_data)"

text \<open>
  \<open>file\<close> is the frame read at line 183 and again inside extract_indicators_from_template
  (the same file, the same rows skipped); \<open>write_ok\<close> tells whether writing the output
  file (lines 262-296) succeeds.
\<close>

definition process_excel_file :: "pylib \<Rightarrow> table option \<Rightarrow> string \<Rightarrow> bool \<Rightarrow> outcome" where
  "process_excel_file L file city_filter write_ok =
     (case file of
        None \<Rightarrow> ((None, []), Some ProcessError)
      | Some df_input \<Rightarrow>
          (case extract_indicators_from_template L file 1 of
             (indicators, value_columns) \<Rightarrow>
               if indicators = [] then ((None, []), Some IndicatorError)
               else
                 (let city_data = row_scan L (shape1 df_input) city_filter value_columns
                                    df_input None []
                  in if city_data = [] then ((None, []), Some DataError)
                     else if write_ok
                     then ((Some \<lparr>columns = [OUTPUT_CITY_COL_NAME, OUTPUT_COUNTY_COL_NAME]
                                               @ indicators,
                                  rows = city_data\<rparr>, indicators), None)
                     else ((None, []), Some ProcessError))))"

text \<open>
  Forward fill as the specification words it: the city of a row is the last non-blank
  city name at or above it (\<open>start\<close> before any).
\<close>

fun forward_fill :: "string option \<Rightarrow> string list \<Rightarrow> string option list" where
  "forward_fill start [] = []"
| "forward_fill start (x # xs) =
     (if x \<noteq> [] then Some x # forward_fill (Some x) xs else start # forward_fill start xs)"

section \<open>extract_indicators_and_counties (lines 313-332)\<close>

text \<open>
  The list comprehension of line 327 and the county column of line 330, both read from the
  previous year's frame. A frame without the county label raises KeyError; with the label
  twice the selection is a frame, which has no \<open>tolist\<close>: AttributeError.
\<close>

definition extract_indicators_and_counties :: "dataframe \<Rightarrow> dataframe \<Rightarrow>
    pyerror + (string list \<times> dfcell list)" where
  "extract_indicators_and_counties df_last_year df_this_year =
     (let indicators = filter (\<lambda>col. col \<notin> set [OUTPUT_CITY_COL_NAME, OUTPUT_COUNTY_COL_NAME])
                         (columns df_last_year)
      in case positions (columns df_last_year) OUTPUT_COUNTY_COL_NAME of
           [] \<Rightarrow> Inl KeyError
         | [i] \<Rightarrow> Inr (indicators, map (\<lambda>r. cell_at r i) (rows df_last_year))
         | i # j # js \<Rightarrow> Inl AttributeError)"

section \<open>select_negative_indicators (lines 49-109)\<close>

text \<open>
  The dialog shows one checkbox per entry of \<open>indicators\<close>; \<open>ticked k\<close> is the state of the
  k-th checkbox when the dialog closes, \<open>confirmed\<close> whether it closes by the confirm button.
  \<open>indicator_vars\<close> (lines 87-92) is a dictionary from name to checkbox: a name that
  occurs again keeps its place and takes the later checkbox. The global list is reset at line
  55 and filled by on_confirm (lines 94-99) from the items of the dictionary.
\<close>

fun indicator_vars :: "nat \<Rightarrow> string list \<Rightarrow> (string \<times> nat) list \<Rightarrow> (string \<times> nat) list" where
  "indicator_vars k [] vars = vars"
| "indicator_vars k (indicator # rest) vars =
     indicator_vars (Suc k) rest (AList.update indicator k vars)"

definition select_negative_indicators :: "string list \<Rightarrow> (nat \<Rightarrow> bool) \<Rightarrow> bool \<Rightarrow> string list" where
  "select_negative_indicators indicators ticked confirmed =
     (if confirmed
      then map fst (filter (\<lambda>(indicator, var). ticked var) (indicator_vars 0 indicators []))
      else [])"

section \<open>Sign inversion (run_processing, lines 947-956)\<close>

definition negate :: "num \<Rightarrow> num" where
  "negate v = (case v of None \<Rightarrow> None | Some x \<Rightarrow> Some (x * - 1))"

text \<open>
  Lines 948-952 for one frame: nothing when the label is not a column; the column made
  numeric and negated when it is one column; TypeError from \<open>pd.to_numeric\<close> when the label
  selects a frame of several columns.
\<close>

definition negate_column :: "pylib \<Rightarrow> dataframe \<Rightarrow> string \<Rightarrow> pyerror + dataframe" where
  "negate_column L df indicator =
     (case positions (columns df) indicator of
        [] \<Rightarrow> Inr df
      | [i] \<Rightarrow> Inr (df\<lparr>rows := map (\<lambda>r. r[i := F (negate (to_numeric L (cell_at r i)))]) (rows df)\<rparr>)
      | i # j # js \<Rightarrow> Inl TypeError)"

fun negate_loop :: "pylib \<Rightarrow> string list \<Rightarrow> dataframe \<Rightarrow> dataframe \<Rightarrow>
    pyerror + (dataframe \<times> dataframe)" where
  "negate_loop L [] df_last_year df_this_year = Inr (df_last_year, df_this_year)"
| "negate_loop L (indicator # rest) df_last_year df_this_year =
     (case negate_column L df_this_year indicator of
        Inl e \<Rightarrow> Inl e
      | Inr this' \<Rightarrow>
          (case negate_column L df_last_year indicator of
             Inl e \<Rightarrow> Inl e
           | Inr last' \<Rightarrow> negate_loop L rest last' this'))"

text \<open>
  What "inverted exactly once" means for a frame \<open>df\<close> and the frame \<open>df'\<close> after the loop:
  the same labels and the same shape, every cell of a column whose label is selected is the
  negated numeric reading of the cell it was, and every other cell is the cell it was.
\<close>

definition inverted_once :: "pylib \<Rightarrow> string list \<Rightarrow> dataframe \<Rightarrow> dataframe \<Rightarrow> bool" where
  "inverted_once L selected df df' =
     (columns df' = columns df \<and> length (rows df') = length (rows df) \<and>
      (\<forall>n < length (rows df).
         length (rows df' ! n) = length (rows df ! n) \<and>
         (\<forall>k < length (rows df ! n).
            rows df' ! n ! k =
              (if k < length (columns df) \<and> columns df ! k \<in> set selected
               then F (negate (to_numeric L (rows df ! n ! k)))
               else rows df ! n ! k))))"

section \<open>generate_output_table (lines 391-445)\<close>

text \<open>
  \<open>f"{value:,.2f}"\<close> on an exact real: the sign, the integer part in groups of three digits,
  a point and two decimals, rounded to the nearest hundredth, a tie to the even one.
\<close>

definition round_half_even :: "real \<Rightarrow> int" where
  "round_half_even y =
     (let f = \<lfloor>y\<rfloor>; d = y - of_int f in
      if d < 1 / 2 then f else if 1 / 2 < d then f + 1 else if even f then f else f + 1)"

definition digit :: "nat \<Rightarrow> char" where
  "digit d = ''0123456789'' ! d"

fun digits_of :: "nat \<Rightarrow> string" where
  "digits_of n = (if n < 10 then [digit n] else digits_of (n div 10) @ [digit (n mod 10)])"

fun group_rev :: "string \<Rightarrow> string" where
  "group_rev (a # b # c # d # rest) = a # b # c # CHR '','' # group_rev (d # rest)"
| "group_rev xs = xs"

definition format_2f :: "real \<Rightarrow> string" where
  "format_2f x =
     (let n = nat (round_half_even (\<bar>x\<bar> * 100)) in
      (if x < 0 then ''-'' else []) @ rev (group_rev (rev (digits_of (n div 100))))
        @ ''.'' @ [digit (n mod 100 div 10), digit (n mod 10)])"

text \<open>
  The string constants of the table, as UTF-8 bytes: the label of the first column, the
  label of the previous-value row, the label of the growth row (it ends in a percent sign),
  the token for an infinite growth, and the full-width opening parenthesis at which an
  indicator name is cut.
\<close>

definition LABEL_COLUMN :: string where
  "LABEL_COLUMN = [CHR 0xE6, CHR 0x8C, CHR 0x87, CHR 0xE6, CHR 0xA0, CHR 0x87, CHR 0xE5, CHR 0x90,
                   CHR 0x8D, CHR 0xE7, CHR 0xA7, CHR 0xB0]"

definition PREVIOUS_LABEL :: string where
  "PREVIOUS_LABEL = [CHR 0xE5, CHR 0x90, CHR 0x8C, CHR 0xE6, CHR 0x9C, CHR 0x9F]"

definition GROWTH_LABEL :: string where
  "GROWTH_LABEL = [CHR 0xE5, CHR 0x90, CHR 0x8C, CHR 0xE6, CHR 0xAF, CHR 0x94, CHR 0xE5, CHR 0xA2,
                   CHR 0x9E, CHR 0xE5, CHR 0xB9, CHR 0x85, CHR 0x25]"

definition INFINITE_GROWTH :: string where
  "INFINITE_GROWTH = [CHR 0xE6, CHR 0x97, CHR 0xA0, CHR 0xE9, CHR 0x99, CHR 0x90, CHR 0xE5, CHR 0xA2,
                      CHR 0x9E, CHR 0xE9, CHR 0x95, CHR 0xBF]"

definition WIDE_PAREN :: string where
  "WIDE_PAREN = [CHR 0xEF, CHR 0xBC, CHR 0x88]"

text \<open>\<open>sep in s\<close> and \<open>s.split(sep)[0]\<close>.\<close>

fun contains :: "string \<Rightarrow> string \<Rightarrow> bool" where
  "contains sep [] = (sep = [])"
| "contains sep (c # cs) = (if take (length sep) (c # cs) = sep then True else contains sep cs)"

fun split_head :: "string \<Rightarrow> string \<Rightarrow> string" where
  "split_head sep [] = []"
| "split_head sep (c # cs) =
     (if take (length sep) (c # cs) = sep then [] else c # split_head sep cs)"

record output_table =
  out_columns :: "dfcell list"
  out_rows :: "string list list"

definition current_row :: "string \<Rightarrow> indicator_data \<Rightarrow> dfcell list \<Rightarrow> string list" where
  "current_row indicator_name d counties =
     (if contains WIDE_PAREN indicator_name then split_head WIDE_PAREN indicator_name
      else indicator_name)
     # map (\<lambda>county. case current_values d county of
                        None \<Rightarrow> ''N/A'' | Some v \<Rightarrow> format_2f v) counties"

definition previous_row :: "indicator_data \<Rightarrow> dfcell list \<Rightarrow> string list" where
  "previous_row d counties =
     PREVIOUS_LABEL
     # map (\<lambda>county. case previous_values d county of
                        None \<Rightarrow> ''N/A'' | Some v \<Rightarrow> format_2f v) counties"

definition growth_cell :: "pyfloat option \<Rightarrow> string" where
  "growth_cell g =
     (case g of
        None \<Rightarrow> ''N/A''
      | Some NaN \<Rightarrow> ''N/A''
      | Some PosInf \<Rightarrow> INFINITE_GROWTH
      | Some (Fin x) \<Rightarrow> format_2f x @ ''%'')"

definition growth_row :: "indicator_data \<Rightarrow> dfcell list \<Rightarrow> string list" where
  "growth_row d counties =
     GROWTH_LABEL # map (\<lambda>county. growth_cell (growth_rates d county)) counties"

fun output_rows :: "result_data \<Rightarrow> dfcell list \<Rightarrow> string list list" where
  "output_rows [] counties = []"
| "output_rows ((indicator_name, d) # rest) counties =
     current_row indicator_name d counties # previous_row d counties # growth_row d counties
     # output_rows rest counties"

definition generate_output_table :: "result_data \<Rightarrow> dfcell list \<Rightarrow> output_table" where
  "generate_output_table result counties =
     \<lparr>out_columns = S LABEL_COLUMN # counties, out_rows = output_rows result counties\<rparr>"

section \<open>run_processing (lines 916-966)\<close>

definition XINZHOU :: string where
  "XINZHOU = [CHR 0xE5, CHR 0xBF, CHR 0xBB, CHR 0xE5, CHR 0xB7, CHR 0x9E]"

text \<open>
  The pipeline after the input checks: both files processed, the run given up (None) when
  either has no frame, the indicators and counties read, the negative indicators chosen and
  their columns inverted in both frames, the growth rates computed and the table built.
  An exception of a step leaves run_processing (\<open>Inl\<close>).
\<close>

definition run_processing :: "pylib \<Rightarrow> table option \<Rightarrow> table option \<Rightarrow> bool \<Rightarrow> bool \<Rightarrow>
    (nat \<Rightarrow> bool) \<Rightarrow> bool \<Rightarrow> pyerror + output_table option" where
  "run_processing L last_year_file current_year_file write_last write_this ticked confirmed =
     (case fst (fst (process_excel_file L last_year_file XINZHOU write_last)) of
        None \<Rightarrow> Inr None
      | Some df_last_year \<Rightarrow>
          (case fst (fst (process_excel_file L current_year_file XINZHOU write_this)) of
             None \<Rightarrow> Inr None
           | Some df_this_year \<Rightarrow>
               (case extract_indicators_and_counties df_last_year df_this_year of
                  Inl e \<Rightarrow> Inl e
                | Inr (indicators, counties) \<Rightarrow>
                    (case negate_loop L (select_negative_indicators indicators ticked confirmed)
                            df_last_year df_this_year of
                       Inl e \<Rightarrow> Inl e
                     | Inr (last', this') \<Rightarrow>
                         (case calculate_growth_rates L last' this' indicators counties of
                            Inl e \<Rightarrow> Inl e
                          | Inr result_data \<Rightarrow>
                              Inr (Some (generate_output_table result_data counties)))))))"

subsection \<open>Concrete inputs\<close>

text \<open>A library whose strings are never numeric, and a frame of one county and one indicator.\<close>

definition lib0 :: pylib where
  "lib0 = \<lparr>str_num = (\<lambda>x. ''0''), to_num = (\<lambda>s. None)\<rparr>"

definition one_cell_frame :: "string \<Rightarrow> string \<Rightarrow> num \<Rightarrow> dataframe" where
  "one_cell_frame county indicator v =
     \<lparr>columns = [OUTPUT_CITY_COL_NAME, OUTPUT_COUNTY_COL_NAME, indicator],
      rows = [[S ''X'', S county, F v]]\<rparr>"

text \<open>
  A raw table of five rows whose city column reads A, blank, blank, B, blank. Its second
  row is the header row: the cell of column 4 names the one indicator, with a line feed
  inside the name.
\<close>

definition ex_table :: table where
  "ex_table =
     [[Blank, Blank, Str ''A'', Str ''c1'', Num 1],
      [Blank, Blank, Blank, Str ''c2'', Str [CHR ''i'', CHR 0x0A, CHR ''n'']],
      [Blank, Blank, Blank, Str ''c3'', Num 3],
      [Blank, Blank, Str ''B'', Str ''c4'', Num 4],
      [Blank, Blank, Blank, Str ''c5'', Blank]]"

text \<open>
  The two frames of the end-to-end scenario: city X, the counties c1 and c2, one indicator
  named "sales volume (pieces)" in Chinese with a full-width parenthesis, the values 10 and
  20 in the previous year and 15 and 8 in the current one.
\<close>

definition SALES :: string where
  "SALES = [CHR 0xE9, CHR 0x94, CHR 0x80, CHR 0xE9, CHR 0x87, CHR 0x8F, CHR 0xEF, CHR 0xBC, CHR 0x88,
            CHR 0xE4, CHR 0xBB, CHR 0xB6, CHR 0xEF, CHR 0xBC, CHR 0x89]"

definition two_county_frame :: "real \<Rightarrow> real \<Rightarrow> dataframe" where
  "two_county_frame v1 v2 =
     \<lparr>columns = [OUTPUT_CITY_COL_NAME, OUTPUT_COUNTY_COL_NAME, SALES],
      rows = [[S ''X'', S ''c1'', F (Some v1)], [S ''X'', S ''c2'', F (Some v2)]]\<rparr>"

text \<open>A raw table whose city column reads A and then a cell holding only U+3000.\<close>

definition wide_space_table :: table where
  "wide_space_table =
     [[Blank, Blank, Str ''A'', Str ''c1''],
      [Blank, Blank, Str [CHR 0xE3, CHR 0x80, CHR 0x80], Str ''c2'']]"

text \<open>
  A file of the city that run_processing extracts: a county row, the header row with the
  one indicator of the scenario, and a second county row; and the frame extracted from it.
\<close>

definition xz_table :: "real \<Rightarrow> real \<Rightarrow> table" where
  "xz_table v1 v2 =
     [[Blank, Blank, Str XINZHOU, Str ''c1'', Num v1],
      [Blank, Blank, Blank, Blank, Str SALES],
      [Blank, Blank, Blank, Str ''c2'', Num v2]]"

definition xz_frame :: "real \<Rightarrow> real \<Rightarrow> dataframe" where
  "xz_frame v1 v2 =
     \<lparr>columns = [OUTPUT_CITY_COL_NAME, OUTPUT_COUNTY_COL_NAME, SALES],
      rows = [[S XINZHOU, S ''c1'', F (Some v1)], [S XINZHOU, S ''c2'', F (Some v2)]]\<rparr>"

text \<open>
  A file whose header row offers the same indicator name twice (columns 4 and 6), and the
  frame extracted from it.
\<close>

definition dup_table :: table where
  "dup_table =
     [[Blank, Blank, Str XINZHOU, Str ''c1'', Num 10, Blank, Num 1],
      [Blank, Blank, Blank, Blank, Str ''x'', Blank, Str ''x'']]"

definition dup_frame :: dataframe where
  "dup_frame =
     \<lparr>columns = [OUTPUT_CITY_COL_NAME, OUTPUT_COUNTY_COL_NAME, ''x'', ''x''],
      rows = [[S XINZHOU, S ''c1'', F (Some 10), F (Some 1)]]\<rparr>"

text \<open>The dialog closed with every checkbox ticked, and with none.\<close>

definition all_ticked :: "nat \<Rightarrow> bool" where
  "all_ticked k = True"

definition none_ticked :: "nat \<Rightarrow> bool" where
  "none_ticked k = False"

section \<open>The growth calculation\<close>

lemma growth_rate_cases:
  "growth_rate l t =
     Inr (case l of
            None \<Rightarrow> (case t of None \<Rightarrow> NaN | Some c \<Rightarrow> if c = 0 then NaN else PosInf)
          | Some p \<Rightarrow>
              if p = 0 then (case t of None \<Rightarrow> NaN | Some c \<Rightarrow> if c = 0 then NaN else PosInf)
              else (case t of None \<Rightarrow> NaN | Some c \<Rightarrow> Fin ((c - p) / p * 100)))"
  by (cases l; cases t) (auto simp: growth_rate_def fdiv_def notna_def isna_def of_num_def)

lemma growth_rate_not_Inl: "growth_rate l t \<noteq> Inl e"
  by (simp add: growth_rate_cases)

text \<open>The division of the model does fail on a zero divisor: the guard is what keeps it away.\<close>

lemma fdiv_zero: "fdiv a (Some 0) = Inl DivisionByZero"
  by (simp add: fdiv_def)

lemma pair_entry_no_div: "pair_entry L dl dt i c \<noteq> Inl DivisionByZero"
  by (auto simp: pair_entry_def rows_of_county_def first_values_def growth_rate_not_Inl
      split: sum.splits list.splits if_splits prod.splits)

lemma county_loop_no_div: "county_loop L dl dt i cs d \<noteq> Inl DivisionByZero"
  using pair_entry_no_div
  by (induction cs arbitrary: d) (auto split: sum.splits option.splits)

lemma indicator_loop_no_div: "indicator_loop L dl dt is cs res \<noteq> Inl DivisionByZero"
  using county_loop_no_div
  by (induction "is" arbitrary: res) (auto split: sum.splits)

lemma county_loop_growth:
  "county_loop L dl dt i cs d = Inr d' \<Longrightarrow>
   growth_rates d' c =
     (if c \<in> set cs then
        (case pair_entry L dl dt i c of Inr (Some (cur, prev, g)) \<Rightarrow> Some g | _ \<Rightarrow> growth_rates d c)
      else growth_rates d c)"
  by (induction cs arbitrary: d) (auto split: sum.splits option.splits prod.splits)

lemma county_loop_ok:
  "county_loop L dl dt i cs d = Inr d' \<Longrightarrow> c \<in> set cs \<Longrightarrow> \<exists>x. pair_entry L dl dt i c = Inr x"
  by (induction cs arbitrary: d) (auto split: sum.splits option.splits prod.splits)

lemma indicator_loop_map:
  "indicator_loop L dl dt is cs res = Inr res' \<Longrightarrow>
   (if i \<in> set is
    then \<exists>d. map_of res' i = Some d \<and> county_loop L dl dt i cs (new_indicator_data i) = Inr d
    else map_of res' i = map_of res i)"
proof (induction "is" arbitrary: res)
  case Nil
  then show ?case by simp
next
  case (Cons j js)
  from Cons.prems obtain d where
    d: "county_loop L dl dt j cs (new_indicator_data j) = Inr d" and
    rest: "indicator_loop L dl dt js cs (AList.update j d res) = Inr res'"
    by (auto split: sum.splits)
  note ih = Cons.IH [OF rest]
  show ?case
  proof (cases "i \<in> set js")
    case True
    with ih show ?thesis by simp
  next
    case False
    with ih have "map_of res' i = map_of (AList.update j d res) i" by simp
    then show ?thesis using False d by (auto simp: AList.update_conv')
  qed
qed

lemma indicator_loop_entry:
  "indicator_loop L dl dt is cs res = Inr res' \<Longrightarrow> i \<in> set is \<Longrightarrow>
   \<exists>d. map_of res' i = Some d \<and> county_loop L dl dt i cs (new_indicator_data i) = Inr d"
  using indicator_loop_map [of L dl dt "is" cs res res' i] by simp

lemma first_values_Inr:
  "first_values L dl dt ind lr tr = Inr (p, c) \<Longrightarrow>
   \<exists>i j. positions (columns dl) ind = [i] \<and> positions (columns dt) ind = [j]
     \<and> p = to_numeric L (cell_at lr i) \<and> c = to_numeric L (cell_at tr j)"
  by (auto simp: first_values_def split: list.splits if_splits)

lemma growth_rate_law:
  "growth_rate p c = Inr g \<Longrightarrow>
   (if absent_or_zero p then (if absent_or_zero c then g = NaN else g = PosInf)
    else (case c of None \<Rightarrow> g = NaN | Some y \<Rightarrow> g = Fin ((y - or_zero p) / or_zero p * 100)))"
  by (cases p; cases c) (auto simp: growth_rate_cases absent_or_zero_def or_zero_def)

lemma ex_positions:
  "positions [OUTPUT_CITY_COL_NAME, OUTPUT_COUNTY_COL_NAME, ''x''] OUTPUT_COUNTY_COL_NAME = [1]"
  "positions [OUTPUT_CITY_COL_NAME, OUTPUT_COUNTY_COL_NAME, ''x''] ''x'' = [2]"
  by (simp_all add: positions_def OUTPUT_CITY_COL_NAME_def OUTPUT_COUNTY_COL_NAME_def upt_rec)

lemma ex_pair:
  "pair_entry L (one_cell_frame ''a'' ''x'' p) (one_cell_frame ''a'' ''x'' c) ''x'' (S ''a'')
   = (case growth_rate p c of Inl e \<Rightarrow> Inl e | Inr g \<Rightarrow> Inr (Some (or_zero c, or_zero p, g)))"
  by (simp add: pair_entry_def rows_of_county_def first_values_def one_cell_frame_def ex_positions
       cell_at_def to_numeric_def)

lemma ex_rows: "rows_of_county (one_cell_frame ''a'' ''x'' v) (S ''a'') = Inr [[S ''X'', S ''a'', F v]]"
  by (simp add: rows_of_county_def one_cell_frame_def ex_positions cell_at_def)

text \<open>
  C1, as stated, fails: with previous value 100 (present, not zero) and the current value
  absent, the growth rate that calculate_growth_rates stores is NaN, "undefined", although
  the two values are not both absent/zero.
\<close>

theorem C1_undefined_counterexample:
  "growth_of (calculate_growth_rates lib0 (one_cell_frame ''a'' ''x'' (Some 100))
       (one_cell_frame ''a'' ''x'' None) [''x''] [S ''a'']) ''x'' (S ''a'') = Some NaN
   \<and> \<not> absent_or_zero (Some 100)"
  by (simp add: growth_of_def calculate_growth_rates_def ex_pair growth_rate_cases
      new_indicator_data_def absent_or_zero_def)

text \<open>
  C1, amended: for every (indicator, county) pair of a successful run where both years have
  a row of the county, the stored growth rate is computed from the first matching row of
  each year: it is NaN when both values are absent/zero, and also when the previous value is
  present and not zero while the current value is absent; it is infinite when the previous
  value is absent/zero and the current one is present and not zero; and it is
  (current - previous) / previous * 100 when the previous value is present and not zero and
  the current value is present. In particular 100, 150 gives 50; 0, 50 gives infinite;
  0, 0 and absent, absent give NaN.
\<close>

theorem C1_growth_law:
  assumes "calculate_growth_rates L dl dt inds cs = Inr res"
    and "ind \<in> set inds" and "county \<in> set cs"
    and "rows_of_county dl county = Inr (lr # lrs)"
    and "rows_of_county dt county = Inr (tr # trs)"
  shows "(\<exists>i j p c g. positions (columns dl) ind = [i] \<and> positions (columns dt) ind = [j]
      \<and> p = to_numeric L (cell_at lr i) \<and> c = to_numeric L (cell_at tr j)
      \<and> growth_of (Inr res) ind county = Some g
      \<and> (if absent_or_zero p then (if absent_or_zero c then g = NaN else g = PosInf)
          else (case c of None \<Rightarrow> g = NaN
                | Some y \<Rightarrow> g = Fin ((y - or_zero p) / or_zero p * 100))))
    \<and> growth_rate (Some 100) (Some 150) = Inr (Fin 50)
    \<and> growth_rate (Some 0) (Some 50) = Inr PosInf
    \<and> growth_rate (Some 0) (Some 0) = Inr NaN
    \<and> growth_rate None None = Inr NaN"
proof -
  from assms(1,2) obtain d where d: "map_of res ind = Some d"
    and cl: "county_loop L dl dt ind cs (new_indicator_data ind) = Inr d"
    using indicator_loop_entry unfolding calculate_growth_rates_def by blast
  from county_loop_ok [OF cl assms(3)] obtain x where x: "pair_entry L dl dt ind county = Inr x"
    by blast
  from x assms(4,5) obtain p c g where
    fv: "first_values L dl dt ind lr tr = Inr (p, c)" and
    g: "growth_rate p c = Inr g" and
    xe: "x = Some (or_zero c, or_zero p, g)"
    by (auto simp: pair_entry_def split: sum.splits prod.splits)
  from county_loop_growth [OF cl, of county] assms(3) x xe
  have "growth_rates d county = Some g" by simp
  with d have go: "growth_of (Inr res) ind county = Some g" by (simp add: growth_of_def)
  from first_values_Inr [OF fv] obtain i j where
    "positions (columns dl) ind = [i]" "positions (columns dt) ind = [j]"
    "p = to_numeric L (cell_at lr i)" "c = to_numeric L (cell_at tr j)" by blast
  with go growth_rate_law [OF g]
  have main: "\<exists>i j p c g. positions (columns dl) ind = [i] \<and> positions (columns dt) ind = [j]
      \<and> p = to_numeric L (cell_at lr i) \<and> c = to_numeric L (cell_at tr j)
      \<and> growth_of (Inr res) ind county = Some g
      \<and> (if absent_or_zero p then (if absent_or_zero c then g = NaN else g = PosInf)
          else (case c of None \<Rightarrow> g = NaN
                | Some y \<Rightarrow> g = Fin ((y - or_zero p) / or_zero p * 100)))"
    by blast
  have laws: "growth_rate (Some 100) (Some 150) = Inr (Fin 50)"
    "growth_rate (Some 0) (Some 50) = Inr PosInf"
    "growth_rate (Some 0) (Some 0) = Inr NaN"
    "growth_rate None None = Inr NaN"
    by (simp_all add: growth_rate_cases)
  from main laws show ?thesis by blast
qed

theorem C1_growth_law_witness:
  "\<exists>res. calculate_growth_rates lib0 (one_cell_frame ''a'' ''x'' (Some 100))
        (one_cell_frame ''a'' ''x'' (Some 150)) [''x''] [S ''a''] = Inr res
     \<and> growth_of (Inr res) ''x'' (S ''a'') = Some (Fin 50)"
proof -
  let ?dl = "one_cell_frame ''a'' ''x'' (Some 100)" and ?dt = "one_cell_frame ''a'' ''x'' (Some 150)"
  obtain res where r: "calculate_growth_rates lib0 ?dl ?dt [''x''] [S ''a''] = Inr res"
    by (simp add: calculate_growth_rates_def ex_pair growth_rate_cases)
  from C1_growth_law [OF r _ _ ex_rows ex_rows, of "''x''"]
  have "growth_of (Inr res) ''x'' (S ''a'') = Some (Fin 50)"
    by (auto simp: one_cell_frame_def ex_positions cell_at_def to_numeric_def absent_or_zero_def
        or_zero_def)
  with r show ?thesis by blast
qed

text \<open>
  C10: the division of line 378 is reached only with a previous value that is present and
  not zero, so neither the growth rate of a pair nor a whole run of calculate_growth_rates
  ever divides by zero.
\<close>

theorem C10_no_division_by_zero:
  "growth_rate last_year_value this_year_value \<noteq> Inl DivisionByZero
   \<and> calculate_growth_rates L df_last_year df_this_year indicators counties \<noteq> Inl DivisionByZero"
  by (simp add: growth_rate_not_Inl calculate_growth_rates_def indicator_loop_no_div)

section \<open>Header extraction and the row scan\<close>

lemma header_loop_eq:
  "header_loop L row is (inds, cols) =
     (inds @ map (\<lambda>i. remove_newlines (py_str L (iloc_cell row i)))
               (filter (\<lambda>i. cell_notna (iloc_cell row i)) is),
      cols @ filter (\<lambda>i. cell_notna (iloc_cell row i)) is)"
  by (induction "is" arbitrary: inds cols) (simp_all add: Let_def)

lemma set_range_by_2: "set (range_by_2 4 n) = {i. 4 \<le> i \<and> i < n \<and> even i}"
proof -
  have "\<And>i. 4 \<le> i \<Longrightarrow> i < n \<Longrightarrow> even i \<Longrightarrow> i \<in> (\<lambda>k. 4 + 2 * k) ` {0..<(n - 4 + 1) div 2}"
  proof -
    fix i :: nat assume a: "4 \<le> i" "i < n" "even i"
    then obtain k where k: "i = 2 * k" by (auto elim: evenE)
    with a have "i = 4 + 2 * (k - 2)" "k - 2 < (n - 4 + 1) div 2" by auto
    then show "i \<in> (\<lambda>k. 4 + 2 * k) ` {0..<(n - 4 + 1) div 2}" by auto
  qed
  then show ?thesis by (auto simp: range_by_2_def)
qed

lemma sorted_range_by_2: "sorted_wrt (<) (range_by_2 a n)"
  by (simp add: range_by_2_def sorted_wrt_map sorted_wrt_upt[simplified] )

lemma cell_notna_iff: "cell_notna c \<longleftrightarrow> c \<noteq> Blank"
  by (cases c) (simp_all add: cell_notna_def)

lemma no_newline: "CHR 0x0A \<notin> set (remove_newlines s)"
  by (simp add: remove_newlines_def)

lemma extract_eq:
  "0 \<le> idx \<Longrightarrow> idx < int (shape0 df) \<Longrightarrow>
   extract_indicators_from_template L (Some df) idx =
     (map (\<lambda>i. remove_newlines (py_str L (iloc_cell (df ! nat idx) i)))
        (filter (\<lambda>i. iloc_cell (df ! nat idx) i \<noteq> Blank) (range_by_2 4 (shape1 df))),
      filter (\<lambda>i. iloc_cell (df ! nat idx) i \<noteq> Blank) (range_by_2 4 (shape1 df)))"
  by (simp add: extract_indicators_from_template_def header_loop_eq cell_notna_iff Let_def)

text \<open>
  C4: for a header row inside the table, extract_indicators_from_template reads the cells at
  the even column indices from 4 up to the width of the table, keeps exactly those that are
  not blank, in increasing order of column, and returns as names the texts of the kept cells
  with every line feed removed, one name for each returned column index, in the same order.
\<close>

theorem C4_header_extraction:
  assumes "0 \<le> idx" and "idx < int (shape0 df)"
    and "extract_indicators_from_template L (Some df) idx = (indicators, value_columns)"
  shows "set value_columns =
        {i. 4 \<le> i \<and> i < shape1 df \<and> even i \<and> iloc_cell (df ! nat idx) i \<noteq> Blank}
    \<and> sorted_wrt (<) value_columns
    \<and> indicators = map (\<lambda>i. remove_newlines (py_str L (iloc_cell (df ! nat idx) i))) value_columns
    \<and> length indicators = length value_columns
    \<and> (\<forall>n \<in> set indicators. CHR 0x0A \<notin> set n)"
proof -
  let ?keep = "filter (\<lambda>i. iloc_cell (df ! nat idx) i \<noteq> Blank) (range_by_2 4 (shape1 df))"
  from assms(3) have "(indicators, value_columns) =
     (map (\<lambda>i. remove_newlines (py_str L (iloc_cell (df ! nat idx) i))) ?keep, ?keep)"
    by (simp only: extract_eq [OF assms(1,2), of L])
  then have v: "value_columns = ?keep"
    and n: "indicators = map (\<lambda>i. remove_newlines (py_str L (iloc_cell (df ! nat idx) i))) ?keep"
    by simp_all
  have 1: "set value_columns =
        {i. 4 \<le> i \<and> i < shape1 df \<and> even i \<and> iloc_cell (df ! nat idx) i \<noteq> Blank}"
    unfolding v by (auto simp: set_range_by_2)
  have 2: "sorted_wrt (<) value_columns"
    unfolding v by (simp add: sorted_wrt_filter sorted_range_by_2)
  have 3: "\<forall>n \<in> set indicators. CHR 0x0A \<notin> set n"
    unfolding n by (simp add: no_newline)
  from 1 2 3 n v show ?thesis by simp
qed

lemma row_scan_eq:
  "row_scan L n cf vcs tbl cur acc =
     acc @ map (\<lambda>(row, c). row_data L n cf vcs row (county_name_of L n row))
            (filter (\<lambda>(row, c). c = Some cf \<and> county_name_of L n row \<noteq> [])
               (zip tbl (forward_fill cur (map (city_name_of L n) tbl))))"
  by (induction tbl arbitrary: cur acc) (simp_all add: Let_def)

lemma forward_fill_length: "length (forward_fill s xs) = length xs"
  by (induction xs arbitrary: s) simp_all

lemma forward_fill_nth:
  "i < length xs \<Longrightarrow>
   forward_fill s xs ! i =
     (if filter (\<lambda>x. x \<noteq> []) (take (Suc i) xs) = [] then s
      else Some (last (filter (\<lambda>x. x \<noteq> []) (take (Suc i) xs))))"
proof (induction xs arbitrary: s i)
  case Nil
  then show ?case by simp
next
  case (Cons x xs)
  show ?case
  proof (cases i)
    case 0
    then show ?thesis by simp
  next
    case (Suc j)
    with Cons.prems have j: "j < length xs" by simp
    show ?thesis using Suc Cons.IH [OF j] by (auto)
  qed
qed

lemma extract_short: "int (shape0 df) \<le> idx \<Longrightarrow> extract_indicators_from_template L (Some df) idx = ([], [])"
  by (simp add: extract_indicators_from_template_def)

lemma process_no_indicators:
  "fst (extract_indicators_from_template L (Some df) 1) = [] \<Longrightarrow>
   process_excel_file L (Some df) cf w = ((None, []), Some IndicatorError)"
  by (auto simp: process_excel_file_def split: prod.splits)

lemma process_no_rows:
  "extract_indicators_from_template L (Some df) 1 = (inds, vcs) \<Longrightarrow> inds \<noteq> [] \<Longrightarrow>
   row_scan L (shape1 df) cf vcs df None [] = [] \<Longrightarrow>
   process_excel_file L (Some df) cf w = ((None, []), Some DataError)"
  by (auto simp: process_excel_file_def split: prod.splits)




lemma ex_shape: "shape1 ex_table = 5" "shape0 ex_table = 5"
  by (simp_all add: shape1_def shape0_def ex_table_def)

lemma ex_range: "range_by_2 4 5 = [4]"
  by (simp add: range_by_2_def)

lemma ex_extract: "extract_indicators_from_template lib0 (Some ex_table) 1 = ([''in''], [4])"
  by (simp add: extract_indicators_from_template_def ex_shape ex_range)
     (simp add: ex_table_def iloc_cell_def cell_notna_def py_str_def remove_newlines_def)

lemma strip_plain [simp]: "strip ''A'' = ''A''" "strip ''B'' = ''B''" "strip ''c1'' = ''c1''"
  "strip ''c2'' = ''c2''" "strip ''c3'' = ''c3''" "strip ''c4'' = ''c4''" "strip ''c5'' = ''c5''"
  by (simp_all add: strip_def lstrip_def rstrip_def match_len_def WHITESPACE_def)

lemma ex_cities: "map (city_name_of lib0 5) ex_table = [''A'', [], [], ''B'', []]"
  by (simp add: ex_table_def city_name_of_def iloc_cell_def cell_notna_def py_str_def)

lemma ex_counties: "map (county_name_of lib0 5) ex_table = [''c1'', ''c2'', ''c3'', ''c4'', ''c5'']"
  by (simp add: ex_table_def county_name_of_def iloc_cell_def cell_notna_def py_str_def)


lemma ex_scan_B: "row_scan lib0 5 ''B'' [4] ex_table None [] =
   [[S ''B'', S ''c4'', F (Some 4)], [S ''B'', S ''c5'', F None]]"
  by (simp add: ex_table_def city_name_of_def county_name_of_def iloc_cell_def cell_notna_def
      py_str_def row_data_def cell_to_numeric_def lib0_def Let_def)

lemma ex_scan_Z: "row_scan lib0 5 ''Z'' [4] ex_table None [] = []"
  by (simp add: ex_table_def city_name_of_def county_name_of_def iloc_cell_def cell_notna_def
      py_str_def row_data_def cell_to_numeric_def lib0_def Let_def)


lemma ex_process_Z: "process_excel_file lib0 (Some ex_table) ''Z'' True = ((None, []), Some DataError)"
  by (simp add: process_excel_file_def ex_extract ex_shape ex_scan_Z)

lemma ex_process_short:
  "process_excel_file lib0 (Some [[Blank]]) ''Z'' True = ((None, []), Some IndicatorError)"
  by (simp add: process_excel_file_def extract_indicators_from_template_def shape0_def)


text \<open>
  C2, as stated, fails: a table without a header row ("no indicators found") and a table
  with an indicator but no row of the city ("no matching-city rows found") give the caller
  the same value, (None, []); only the dialog shown to the operator differs.
\<close>

theorem C2_same_return_counterexample:
  "process_excel_file lib0 (Some [[Blank]]) ''Z'' True = ((None, []), Some IndicatorError)
   \<and> process_excel_file lib0 (Some ex_table) ''Z'' True = ((None, []), Some DataError)
   \<and> fst (process_excel_file lib0 (Some [[Blank]]) ''Z'' True)
       = fst (process_excel_file lib0 (Some ex_table) ''Z'' True)"
  by (simp add: ex_process_Z ex_process_short)

text \<open>
  C2, amended: when no indicator is found, process_excel_file returns (None, []) and shows
  the dialog "indicator error"; when indicators are found but no row of the city is
  collected, it returns the same value (None, []) and shows the dialog "data error". The two
  conditions are told apart by the dialog, not by the returned value.
\<close>

theorem C2_same_value:
  assumes "extract_indicators_from_template L (Some df) 1 = (inds, vcs)"
  shows "(inds = [] \<longrightarrow>
            process_excel_file L (Some df) cf w = ((None, []), Some IndicatorError))
       \<and> (inds \<noteq> [] \<and> row_scan L (shape1 df) cf vcs df None [] = [] \<longrightarrow>
            process_excel_file L (Some df) cf w = ((None, []), Some DataError))"
  using assms process_no_indicators [of L df cf w] process_no_rows [of L df inds vcs cf w]
  by simp

theorem C2_same_value_witness:
  "process_excel_file lib0 (Some [[Blank]]) ''Z'' True = ((None, []), Some IndicatorError)
   \<and> process_excel_file lib0 (Some ex_table) ''Z'' True = ((None, []), Some DataError)"
proof -
  have e: "extract_indicators_from_template lib0 (Some [[Blank]]) 1 = ([], [])"
    by (simp add: extract_indicators_from_template_def shape0_def)
  from C2_same_value [OF e, of "''Z''" True] C2_same_value [OF ex_extract, of "''Z''" True]
  show ?thesis by (simp add: ex_shape ex_scan_Z)
qed

text \<open>
  C3: the row scan collects exactly the rows whose forward-filled city is the target and
  whose county name is not empty, in order; the forward-filled city of a row is the last
  non-blank city name at or above it; and for the city column A, blank, blank, B, blank the
  rows 1-3 resolve to A and the rows 4-5 to B.
\<close>

theorem C3_forward_fill:
  "row_scan L n cf vcs tbl cur acc =
     acc @ map (\<lambda>(row, c). row_data L n cf vcs row (county_name_of L n row))
            (filter (\<lambda>(row, c). c = Some cf \<and> county_name_of L n row \<noteq> [])
               (zip tbl (forward_fill cur (map (city_name_of L n) tbl))))
   \<and> (\<forall>i < length xs. forward_fill s xs ! i =
        (if filter (\<lambda>x. x \<noteq> []) (take (Suc i) xs) = [] then s
         else Some (last (filter (\<lambda>x. x \<noteq> []) (take (Suc i) xs)))))
   \<and> forward_fill None [''A'', [], [], ''B'', []]
       = [Some ''A'', Some ''A'', Some ''A'', Some ''B'', Some ''B'']"
  using row_scan_eq [of L n cf vcs tbl cur acc] forward_fill_nth [of _ xs s]
  by simp

lemma strip_wide_space [simp]: "strip [CHR 0xE3, CHR 0x80, CHR 0x80] = []"
  by (simp add: strip_def lstrip_def rstrip_def match_len_def WHITESPACE_def)

lemma wide_cities: "map (city_name_of lib0 4) wide_space_table = [''A'', []]"
  by (simp add: wide_space_table_def city_name_of_def iloc_cell_def cell_notna_def py_str_def)

theorem C3_forward_fill_witness:
  "row_scan lib0 5 ''A'' [4] ex_table None [] =
     [[S ''A'', S ''c1'', F (Some 1)], [S ''A'', S ''c2'', F None], [S ''A'', S ''c3'', F (Some 3)]]
   \<and> (4::nat) < length [''A'', [], [], ''B'', []]
   \<and> forward_fill None (map (city_name_of lib0 5) ex_table) ! 4 = Some ''B''
   \<and> map (city_name_of lib0 4) wide_space_table = [''A'', []]
   \<and> row_scan lib0 4 ''A'' [] wide_space_table None [] = [[S ''A'', S ''c1''], [S ''A'', S ''c2'']]"
proof -
  note t = C3_forward_fill [of lib0 5 "''A''" "[4]" ex_table None "[]"
      "map (city_name_of lib0 5) ex_table" None]
  from t have 1: "row_scan lib0 5 ''A'' [4] ex_table None [] =
     [[S ''A'', S ''c1'', F (Some 1)], [S ''A'', S ''c2'', F None], [S ''A'', S ''c3'', F (Some 3)]]"
    by (simp add: ex_cities) (simp add: ex_table_def county_name_of_def iloc_cell_def
        cell_notna_def py_str_def row_data_def cell_to_numeric_def lib0_def Let_def)
  from t have "\<forall>i < length (map (city_name_of lib0 5) ex_table).
      forward_fill None (map (city_name_of lib0 5) ex_table) ! i =
        (if filter (\<lambda>x. x \<noteq> []) (take (Suc i) (map (city_name_of lib0 5) ex_table)) = [] then None
         else Some (last (filter (\<lambda>x. x \<noteq> []) (take (Suc i) (map (city_name_of lib0 5) ex_table)))))"
    by blast
  then have 2: "forward_fill None (map (city_name_of lib0 5) ex_table) ! 4 = Some ''B''"
    unfolding ex_cities by simp
  note w = C3_forward_fill [of lib0 4 "''A''" "[]" wide_space_table None "[]" "[]" None]
  from w have 3: "row_scan lib0 4 ''A'' [] wide_space_table None []
      = [[S ''A'', S ''c1''], [S ''A'', S ''c2'']]"
    by (simp add: wide_cities) (simp add: wide_space_table_def county_name_of_def iloc_cell_def
        cell_notna_def py_str_def row_data_def Let_def)
  from 1 2 3 wide_cities show ?thesis by simp
qed



theorem C4_header_extraction_witness:
  "(0::int) \<le> 1 \<and> 1 < int (shape0 ex_table)
   \<and> extract_indicators_from_template lib0 (Some ex_table) 1 = ([''in''], [4])
   \<and> set [4] = {i. 4 \<le> i \<and> i < shape1 ex_table \<and> even i \<and> iloc_cell (ex_table ! nat 1) i \<noteq> Blank}
   \<and> CHR 0x0A \<notin> set ''in''"
proof -
  have a: "(0::int) \<le> 1" "1 < int (shape0 ex_table)" by (simp_all add: ex_shape)
  note t = C4_header_extraction [OF a ex_extract]
  from t have s: "set [4] =
      {i. 4 \<le> i \<and> i < shape1 ex_table \<and> even i \<and> iloc_cell (ex_table ! nat 1) i \<noteq> Blank}"
    by (rule conjunct1)
  from t have "\<forall>n \<in> set [''in'']. CHR 0x0A \<notin> set n" by blast
  then have n: "CHR 0x0A \<notin> set ''in''" by simp
  from a ex_extract s n show ?thesis by (intro conjI)
qed

text \<open>
  C8: a header row index at or beyond the number of rows gives two empty lists, no
  exception; and a file for which no indicator is found makes process_excel_file return
  (None, []) with the dialog "indicator error", in particular a file of at most one row,
  and makes run_processing give the run up.
\<close>

theorem C8_missing_header:
  "(int (shape0 df) \<le> idx \<longrightarrow> extract_indicators_from_template L (Some df) idx = ([], []))
   \<and> (fst (extract_indicators_from_template L (Some df) 1) = [] \<longrightarrow>
        process_excel_file L (Some df) cf w = ((None, []), Some IndicatorError)
        \<and> run_processing L (Some df) g w1 w2 ticked confirmed = Inr None
        \<and> run_processing L g (Some df) w1 w2 ticked confirmed = Inr None)
   \<and> (shape0 df \<le> 1 \<longrightarrow>
        process_excel_file L (Some df) cf w = ((None, []), Some IndicatorError))"
proof -
  have 1: "int (shape0 df) \<le> idx \<longrightarrow> extract_indicators_from_template L (Some df) idx = ([], [])"
    by (simp add: extract_short)
  have 2: "process_excel_file L (Some df) c v = ((None, []), Some IndicatorError)"
    if "fst (extract_indicators_from_template L (Some df) 1) = []" for c v
    using that by (rule process_no_indicators)
  have 3: "run_processing L (Some df) g w1 w2 ticked confirmed = Inr None"
    if "fst (extract_indicators_from_template L (Some df) 1) = []"
    by (simp add: run_processing_def 2 [OF that])
  have 4: "run_processing L g (Some df) w1 w2 ticked confirmed = Inr None"
    if "fst (extract_indicators_from_template L (Some df) 1) = []"
    by (simp add: run_processing_def 2 [OF that] split: option.splits)
  have 5: "process_excel_file L (Some df) cf w = ((None, []), Some IndicatorError)"
    if "shape0 df \<le> 1"
  proof -
    from that have "extract_indicators_from_template L (Some df) 1 = ([], [])"
      by (intro extract_short) simp
    then show ?thesis by (intro 2) simp
  qed
  from 1 2 3 4 5 show ?thesis by blast
qed

theorem C8_missing_header_witness:
  "int (shape0 [[Blank]]) \<le> 1
   \<and> extract_indicators_from_template lib0 (Some [[Blank]]) 1 = ([], [])
   \<and> process_excel_file lib0 (Some [[Blank]]) ''Z'' True = ((None, []), Some IndicatorError)
   \<and> run_processing lib0 (Some [[Blank]]) (Some ex_table) True True (\<lambda>k. False) True = Inr None"
proof -
  have a: "int (shape0 [[Blank]]) \<le> 1" by (simp add: shape0_def)
  have b: "shape0 [[Blank :: cell]] \<le> 1" by (simp add: shape0_def)
  note t = C8_missing_header [of "[[Blank]]" 1 lib0 "''Z''" True "Some ex_table" True True
      "\<lambda>k. False" True]
  from t a have e: "extract_indicators_from_template lib0 (Some [[Blank]]) 1 = ([], [])" by blast
  with t b a show ?thesis by simp
qed

section \<open>Negative indicators\<close>

lemma set_positions: "set (positions cs l) = {k. k < length cs \<and> cs ! k = l}"
  by (auto simp: positions_def)

lemma indicator_vars_distinct:
  "distinct (map fst vars) \<Longrightarrow> distinct (map fst (indicator_vars k inds vars))"
  by (induction inds arbitrary: k vars) (simp_all add: AList.distinct_update)

lemma select_distinct: "distinct (select_negative_indicators inds ticked confirmed)"
proof -
  have "distinct (map fst (indicator_vars 0 inds []))"
    by (rule indicator_vars_distinct) simp
  then show ?thesis
    by (simp add: select_negative_indicators_def distinct_map_filter)
qed

lemma negate_column_once:
  assumes "negate_column L df ind = Inr df'"
  shows "inverted_once L [ind] df df'"
proof (cases "positions (columns df) ind")
  case Nil
  with assms have e: "df' = df" by (simp add: negate_column_def)
  from Nil set_positions [of "columns df" ind]
  have "\<forall>k < length (columns df). columns df ! k \<noteq> ind" by auto
  with e show ?thesis by (auto simp: inverted_once_def)
next
  case (Cons i rest)
  with assms have r: "rest = []"
    by (cases rest) (simp_all add: negate_column_def)
  with Cons assms have e:
    "df' = df\<lparr>rows := map (\<lambda>r. r[i := F (negate (to_numeric L (cell_at r i)))]) (rows df)\<rparr>"
    by (simp add: negate_column_def)
  from Cons r set_positions [of "columns df" ind]
  have u: "\<forall>k. (k < length (columns df) \<and> columns df ! k = ind) \<longleftrightarrow> k = i" by auto
  show ?thesis
    unfolding inverted_once_def e using u by (auto simp: cell_at_def nth_list_update)
qed

lemma inverted_once_step:
  assumes "inverted_once L [ind] df df1" and "inverted_once L rest df1 df'" and "ind \<notin> set rest"
  shows "inverted_once L (ind # rest) df df'"
  using assms unfolding inverted_once_def
  by (auto simp: to_numeric_def)


lemma inverted_once_nil: "inverted_once L [] df df"
  by (simp add: inverted_once_def)

lemma negate_loop_once:
  "negate_loop L sel dl dt = Inr (dl', dt') \<Longrightarrow> distinct sel \<Longrightarrow>
   inverted_once L sel dl dl' \<and> inverted_once L sel dt dt'"
proof (induction sel arbitrary: dl dt)
  case Nil
  then show ?case by (simp add: inverted_once_nil)
next
  case (Cons ind rest)
  from Cons.prems(1) obtain t1 l1 where
    t1: "negate_column L dt ind = Inr t1" and l1: "negate_column L dl ind = Inr l1" and
    r: "negate_loop L rest l1 t1 = Inr (dl', dt')"
    by (auto split: sum.splits)
  from Cons.prems(2) have d: "distinct rest" "ind \<notin> set rest" by simp_all
  from Cons.IH [OF r d(1)] have ih: "inverted_once L rest l1 dl'" "inverted_once L rest t1 dt'"
    by simp_all
  from inverted_once_step [OF negate_column_once [OF l1] ih(1) d(2)]
       inverted_once_step [OF negate_column_once [OF t1] ih(2) d(2)]
  show ?case by simp
qed

lemma run_processing_steps:
  assumes "run_processing L f g w1 w2 ticked confirmed = Inr (Some out)"
  shows "\<exists>dl dt inds cs dl' dt' res.
      fst (fst (process_excel_file L f XINZHOU w1)) = Some dl
    \<and> fst (fst (process_excel_file L g XINZHOU w2)) = Some dt
    \<and> extract_indicators_and_counties dl dt = Inr (inds, cs)
    \<and> negate_loop L (select_negative_indicators inds ticked confirmed) dl dt = Inr (dl', dt')
    \<and> calculate_growth_rates L dl' dt' inds cs = Inr res
    \<and> out = generate_output_table res cs"
  using assms unfolding run_processing_def
  by (auto split: option.splits sum.splits prod.splits)


section \<open>Indicators and counties of the comparison\<close>

lemma indicator_loop_keys:
  "indicator_loop L dl dt is cs res = Inr res' \<Longrightarrow> set (map fst res') = set (map fst res) \<union> set is"
proof (induction "is" arbitrary: res)
  case Nil
  then show ?case by simp
next
  case (Cons j js)
  from Cons.prems obtain d where
    rest: "indicator_loop L dl dt js cs (AList.update j d res) = Inr res'"
    by (auto split: sum.splits)
  from Cons.IH [OF rest] show ?case by (auto simp: AList.dom_update)
qed

lemma extract_from_last:
  assumes "extract_indicators_and_counties dl dt = Inr (inds, cs)"
  shows "\<exists>i. positions (columns dl) OUTPUT_COUNTY_COL_NAME = [i]
     \<and> inds = filter (\<lambda>col. col \<noteq> OUTPUT_CITY_COL_NAME \<and> col \<noteq> OUTPUT_COUNTY_COL_NAME) (columns dl)
     \<and> cs = map (\<lambda>r. cell_at r i) (rows dl)"
  using assms unfolding extract_indicators_and_counties_def
  by (auto simp: Let_def split: list.splits)

text \<open>
  C9: extract_indicators_and_counties does not read the current year's frame: any two
  current-year frames give the same result. The indicators are labels of the previous
  year's frame and the counties are the cells of its county column; the comparison table of
  a run has the label column and these counties as its columns, and its rows are built for
  exactly these indicators.
\<close>

theorem C9_prior_year_only:
  "extract_indicators_and_counties dl dt1 = extract_indicators_and_counties dl dt2
   \<and> (extract_indicators_and_counties dl dt = Inr (inds, cs) \<longrightarrow>
        set inds \<subseteq> set (columns dl)
        \<and> (\<exists>i. positions (columns dl) OUTPUT_COUNTY_COL_NAME = [i]
               \<and> cs = map (\<lambda>r. cell_at r i) (rows dl)))
   \<and> (run_processing L f g w1 w2 t c = Inr (Some out) \<longrightarrow>
        (\<exists>pl is ps res. fst (fst (process_excel_file L f XINZHOU w1)) = Some pl
           \<and> extract_indicators_and_counties pl pl = Inr (is, ps)
           \<and> out_columns out = S LABEL_COLUMN # ps
           \<and> out_rows out = output_rows res ps
           \<and> set (map fst res) = set is))"
proof -
  have 1: "extract_indicators_and_counties dl dt1 = extract_indicators_and_counties dl dt2"
    by (simp add: extract_indicators_and_counties_def)
  have 2: "set inds \<subseteq> set (columns dl)
        \<and> (\<exists>i. positions (columns dl) OUTPUT_COUNTY_COL_NAME = [i]
               \<and> cs = map (\<lambda>r. cell_at r i) (rows dl))"
    if "extract_indicators_and_counties dl dt = Inr (inds, cs)"
    using extract_from_last [OF that] by auto
  have 3: "\<exists>pl is ps res. fst (fst (process_excel_file L f XINZHOU w1)) = Some pl
           \<and> extract_indicators_and_counties pl pl = Inr (is, ps)
           \<and> out_columns out = S LABEL_COLUMN # ps
           \<and> out_rows out = output_rows res ps
           \<and> set (map fst res) = set is"
    if "run_processing L f g w1 w2 t c = Inr (Some out)"
  proof -
    from run_processing_steps [OF that] obtain pl pt "is" ps pl' pt' res where
      s: "fst (fst (process_excel_file L f XINZHOU w1)) = Some pl"
         "extract_indicators_and_counties pl pt = Inr (is, ps)"
         "calculate_growth_rates L pl' pt' is ps = Inr res"
         "out = generate_output_table res ps"
      by blast
    from s(2) have e: "extract_indicators_and_counties pl pl = Inr (is, ps)"
      by (simp add: extract_indicators_and_counties_def)
    from s(3) have k: "set (map fst res) = set is"
      using indicator_loop_keys [of L pl' pt' "is" ps "[]" res]
      by (simp add: calculate_growth_rates_def)
    from s(1) e k s(4) show ?thesis by (auto simp: generate_output_table_def)
  qed
  from 1 2 3 show ?thesis by blast
qed

theorem C9_prior_year_only_witness:
  "extract_indicators_and_counties (one_cell_frame ''a'' ''x'' None) (one_cell_frame ''b'' ''y'' None)
     = Inr ([''x''], [S ''a''])
   \<and> extract_indicators_and_counties (one_cell_frame ''a'' ''x'' None) (one_cell_frame ''a'' ''x'' None)
     = Inr ([''x''], [S ''a''])
   \<and> set [''x''] \<subseteq> set (columns (one_cell_frame ''a'' ''x'' None))"
proof -
  have e: "extract_indicators_and_counties (one_cell_frame ''a'' ''x'' None)
      (one_cell_frame ''a'' ''x'' None) = Inr ([''x''], [S ''a''])"
    by (simp add: extract_indicators_and_counties_def one_cell_frame_def ex_positions cell_at_def)
       (simp add: OUTPUT_CITY_COL_NAME_def OUTPUT_COUNTY_COL_NAME_def)
  note t = C9_prior_year_only [of "one_cell_frame ''a'' ''x'' None" "one_cell_frame ''b'' ''y'' None"
      "one_cell_frame ''a'' ''x'' None" "one_cell_frame ''a'' ''x'' None" "[''x'']" "[S ''a'']"]
  from t e show ?thesis by simp
qed

section \<open>The comparison table\<close>

declare digits_of.simps [simp del]

lemma digits_small: "n < 10 \<Longrightarrow> digits_of n = [digit n]"
  by (subst digits_of.simps) simp

lemma digits_big: "10 \<le> n \<Longrightarrow> digits_of n = digits_of (n div 10) @ [digit (n mod 10)]"
  by (subst digits_of.simps) simp

lemma round_half_even_int: "round_half_even (of_int z) = z"
  by (simp add: round_half_even_def)

lemma digit_vals: "digit 0 = CHR ''0''" "digit 1 = CHR ''1''" "digit (Suc 0) = CHR ''1''" "digit 2 = CHR ''2''"
  "digit 5 = CHR ''5''" "digit 6 = CHR ''6''" "digit 8 = CHR ''8''"
  by (simp_all add: digit_def)

lemma format_2f_nat:
  "format_2f (of_nat n) = rev (group_rev (rev (digits_of n))) @ ''.00''"
proof -
  have "\<bar>of_nat n :: real\<bar> * 100 = of_int (int (n * 100))" by simp
  then have "round_half_even (\<bar>of_nat n :: real\<bar> * 100) = int (n * 100)"
    by (simp only: round_half_even_int)
  then have "nat (round_half_even (\<bar>of_nat n :: real\<bar> * 100)) = n * 100"
    by (simp only: nat_int)
  then show ?thesis by (simp add: format_2f_def Let_def digit_vals)
qed

lemma format_2f_neg:
  "0 < n \<Longrightarrow> format_2f (- of_nat n) = ''-'' @ rev (group_rev (rev (digits_of n))) @ ''.00''"
proof -
  have "\<bar>- of_nat n :: real\<bar> * 100 = of_int (int (n * 100))" by simp
  then have "round_half_even (\<bar>- of_nat n :: real\<bar> * 100) = int (n * 100)"
    by (simp only: round_half_even_int)
  then have "nat (round_half_even (\<bar>- of_nat n :: real\<bar> * 100)) = n * 100"
    by (simp only: nat_int)
  moreover assume "0 < n"
  ultimately show ?thesis by (simp add: format_2f_def Let_def digit_vals)
qed

lemma format_examples:
  "format_2f 50 = ''50.00''" "format_2f 15 = ''15.00''" "format_2f 8 = ''8.00''"
  "format_2f 10 = ''10.00''" "format_2f 20 = ''20.00''" "format_2f (- 60) = ''-60.00''"
  using format_2f_nat [of 50] format_2f_nat [of 15] format_2f_nat [of 8] format_2f_nat [of 10]
    format_2f_nat [of 20] format_2f_neg [of 60]
  by (simp_all add: digits_big digits_small digit_vals)

lemma format_2f_grouping: "format_2f (1234567.891) = ''1,234,567.89''"
  by (simp add: format_2f_def round_half_even_def Let_def digits_big digits_small digit_def)

lemma format_2f_rounding: "format_2f (0.125) = ''0.12''"  "format_2f (-0.001) = ''-0.00''" "format_2f 0.375 = ''0.38''"
  by (simp_all add: format_2f_def round_half_even_def Let_def digits_big digits_small digit_def)

lemma format_2f_shape: "\<exists>p a b. format_2f x = p @ ''.'' @ [digit a, digit b] \<and> a < 10 \<and> b < 10"
proof -
  define n where "n = nat (round_half_even (\<bar>x\<bar> * 100))"
  have "format_2f x = ((if x < 0 then ''-'' else []) @ rev (group_rev (rev (digits_of (n div 100)))))
        @ ''.'' @ [digit (n mod 100 div 10), digit (n mod 10)]"
    by (simp add: format_2f_def n_def Let_def)
  moreover have "n mod 100 div 10 < 10" "n mod 10 < 10" by simp_all
  ultimately show ?thesis by blast
qed

lemma output_rows_length: "length (output_rows res cs) = 3 * length res"
  by (induction res cs rule: output_rows.induct) simp_all

lemma output_rows_nth:
  "k < length res \<Longrightarrow>
   output_rows res cs ! (3 * k) = current_row (fst (res ! k)) (snd (res ! k)) cs
   \<and> output_rows res cs ! (3 * k + 1) = previous_row (snd (res ! k)) cs
   \<and> output_rows res cs ! (3 * k + 2) = growth_row (snd (res ! k)) cs"
proof (induction res cs arbitrary: k rule: output_rows.induct)
  case (1 counties)
  then show ?case by simp
next
  case (2 indicator_name d rest counties)
  show ?case
  proof (cases k)
    case 0
    then show ?thesis by simp
  next
    case (Suc j)
    with 2 have "j < length rest" by simp
    from "2.IH" [OF this] Suc show ?thesis by (simp add: numeral_3_eq_3)
  qed
qed

lemma output_rows_width: "r \<in> set (output_rows res cs) \<Longrightarrow> length r = 1 + length cs"
  by (induction res cs rule: output_rows.induct)
     (auto simp: current_row_def previous_row_def growth_row_def)

lemma sales_positions:
  "positions [OUTPUT_CITY_COL_NAME, OUTPUT_COUNTY_COL_NAME, SALES] OUTPUT_COUNTY_COL_NAME = [1]"
  "positions [OUTPUT_CITY_COL_NAME, OUTPUT_COUNTY_COL_NAME, SALES] SALES = [2]"
  by (simp_all add: positions_def OUTPUT_CITY_COL_NAME_def OUTPUT_COUNTY_COL_NAME_def SALES_def
      upt_rec)

lemma sales_pairs:
  "pair_entry L (two_county_frame 10 20) (two_county_frame 15 8) SALES (S ''c1'')
     = Inr (Some (15, 10, Fin 50))"
  "pair_entry L (two_county_frame 10 20) (two_county_frame 15 8) SALES (S ''c2'')
     = Inr (Some (8, 20, Fin (- 60)))"
  by (simp_all add: pair_entry_def rows_of_county_def first_values_def two_county_frame_def
      sales_positions cell_at_def to_numeric_def growth_rate_cases or_zero_def)

lemma sales_label:
  "(if contains WIDE_PAREN SALES then split_head WIDE_PAREN SALES else SALES)
     = [CHR 0xE9, CHR 0x94, CHR 0x80, CHR 0xE9, CHR 0x87, CHR 0x8F]"
  by (simp add: WIDE_PAREN_def SALES_def)

text \<open>
  C7: the comparison table has the label column and one column per county; its rows come in
  threes, one three per indicator of the result, in the order current values, previous
  values, growth rates, each row one cell per column; a growth cell reads the token for
  infinite growth when the rate is infinite, N/A when it is NaN or missing, and otherwise
  the rate with two decimals and a percent sign, 50.00% and -60.00% for the rates 50 and -60.
\<close>

theorem C7_comparison_table:
  "out_columns (generate_output_table res cs) = S LABEL_COLUMN # cs
   \<and> length (out_rows (generate_output_table res cs)) = 3 * length res
   \<and> (\<forall>k < length res.
         out_rows (generate_output_table res cs) ! (3 * k)
           = current_row (fst (res ! k)) (snd (res ! k)) cs
       \<and> out_rows (generate_output_table res cs) ! (3 * k + 1) = previous_row (snd (res ! k)) cs
       \<and> out_rows (generate_output_table res cs) ! (3 * k + 2) = growth_row (snd (res ! k)) cs)
   \<and> (\<forall>r \<in> set (out_rows (generate_output_table res cs)). length r = 1 + length cs)
   \<and> (\<forall>j < length cs. growth_row d cs ! Suc j = growth_cell (growth_rates d (cs ! j)))
   \<and> growth_cell (Some PosInf) = INFINITE_GROWTH
   \<and> growth_cell (Some NaN) = ''N/A''
   \<and> growth_cell None = ''N/A''
   \<and> growth_cell (Some (Fin x)) = format_2f x @ ''%''
   \<and> (\<exists>p a b. format_2f x = p @ ''.'' @ [digit a, digit b] \<and> a < 10 \<and> b < 10)
   \<and> growth_cell (Some (Fin 50)) = ''50.00%''
   \<and> growth_cell (Some (Fin (- 60))) = ''-60.00%''"
proof -
  have 1: "out_columns (generate_output_table res cs) = S LABEL_COLUMN # cs"
    and 2: "length (out_rows (generate_output_table res cs)) = 3 * length res"
    by (simp_all add: generate_output_table_def output_rows_length)
  have 3: "\<forall>k < length res.
         out_rows (generate_output_table res cs) ! (3 * k)
           = current_row (fst (res ! k)) (snd (res ! k)) cs
       \<and> out_rows (generate_output_table res cs) ! (3 * k + 1) = previous_row (snd (res ! k)) cs
       \<and> out_rows (generate_output_table res cs) ! (3 * k + 2) = growth_row (snd (res ! k)) cs"
    using output_rows_nth [of _ res cs] by (simp add: generate_output_table_def)
  have 4: "\<forall>r \<in> set (out_rows (generate_output_table res cs)). length r = 1 + length cs"
    using output_rows_width [of _ res cs] by (simp add: generate_output_table_def)
  have 5: "\<forall>j < length cs. growth_row d cs ! Suc j = growth_cell (growth_rates d (cs ! j))"
    by (simp add: growth_row_def)
  have 6: "growth_cell (Some PosInf) = INFINITE_GROWTH" "growth_cell (Some NaN) = ''N/A''"
    "growth_cell None = ''N/A''" "growth_cell (Some (Fin x)) = format_2f x @ ''%''"
    "growth_cell (Some (Fin 50)) = ''50.00%''" "growth_cell (Some (Fin (- 60))) = ''-60.00%''"
    by (simp_all add: growth_cell_def format_examples)
  from 1 2 3 4 5 6 format_2f_shape [of x] show ?thesis by blast
qed

theorem C7_comparison_table_witness:
  "\<exists>res. calculate_growth_rates lib0 (two_county_frame 10 20) (two_county_frame 15 8) [SALES]
            [S ''c1'', S ''c2''] = Inr res
     \<and> out_columns (generate_output_table res [S ''c1'', S ''c2''])
         = [S LABEL_COLUMN, S ''c1'', S ''c2'']
     \<and> length (out_rows (generate_output_table res [S ''c1'', S ''c2''])) = 3
     \<and> out_rows (generate_output_table res [S ''c1'', S ''c2'']) ! 0
         = [[CHR 0xE9, CHR 0x94, CHR 0x80, CHR 0xE9, CHR 0x87, CHR 0x8F], ''15.00'', ''8.00'']
     \<and> out_rows (generate_output_table res [S ''c1'', S ''c2'']) ! 1
         = [PREVIOUS_LABEL, ''10.00'', ''20.00'']
     \<and> out_rows (generate_output_table res [S ''c1'', S ''c2'']) ! 2
         = [GROWTH_LABEL, ''50.00%'', ''-60.00%'']"
proof -
  define d where "d = \<lparr>name = SALES,
      current_values = [S ''c1'' \<mapsto> 15, S ''c2'' \<mapsto> 8],
      previous_values = [S ''c1'' \<mapsto> 10, S ''c2'' \<mapsto> 20],
      growth_rates = [S ''c1'' \<mapsto> Fin 50, S ''c2'' \<mapsto> Fin (- 60)]\<rparr>"
  have r: "calculate_growth_rates lib0 (two_county_frame 10 20) (two_county_frame 15 8) [SALES]
            [S ''c1'', S ''c2''] = Inr [(SALES, d)]"
    by (simp add: calculate_growth_rates_def sales_pairs new_indicator_data_def d_def)
  note t = C7_comparison_table [of "[(SALES, d)]" "[S ''c1'', S ''c2'']" d 0]
  from t have c: "out_columns (generate_output_table [(SALES, d)] [S ''c1'', S ''c2''])
         = [S LABEL_COLUMN, S ''c1'', S ''c2'']"
    and l: "length (out_rows (generate_output_table [(SALES, d)] [S ''c1'', S ''c2''])) = 3"
    by simp_all
  from t have "\<forall>k < length [(SALES, d)].
         out_rows (generate_output_table [(SALES, d)] [S ''c1'', S ''c2'']) ! (3 * k)
           = current_row (fst ([(SALES, d)] ! k)) (snd ([(SALES, d)] ! k)) [S ''c1'', S ''c2'']
       \<and> out_rows (generate_output_table [(SALES, d)] [S ''c1'', S ''c2'']) ! (3 * k + 1)
           = previous_row (snd ([(SALES, d)] ! k)) [S ''c1'', S ''c2'']
       \<and> out_rows (generate_output_table [(SALES, d)] [S ''c1'', S ''c2'']) ! (3 * k + 2)
           = growth_row (snd ([(SALES, d)] ! k)) [S ''c1'', S ''c2'']"
    by blast
  then have rows: "out_rows (generate_output_table [(SALES, d)] [S ''c1'', S ''c2'']) ! 0
           = current_row SALES d [S ''c1'', S ''c2'']"
    "out_rows (generate_output_table [(SALES, d)] [S ''c1'', S ''c2'']) ! 1
           = previous_row d [S ''c1'', S ''c2'']"
    "out_rows (generate_output_table [(SALES, d)] [S ''c1'', S ''c2'']) ! 2
           = growth_row d [S ''c1'', S ''c2'']"
    by (simp_all add: numeral_2_eq_2)
  have v: "current_row SALES d [S ''c1'', S ''c2'']
       = [[CHR 0xE9, CHR 0x94, CHR 0x80, CHR 0xE9, CHR 0x87, CHR 0x8F], ''15.00'', ''8.00'']"
    "previous_row d [S ''c1'', S ''c2''] = [PREVIOUS_LABEL, ''10.00'', ''20.00'']"
    "growth_row d [S ''c1'', S ''c2''] = [GROWTH_LABEL, ''50.00%'', ''-60.00%'']"
    by (simp_all add: current_row_def previous_row_def growth_row_def growth_cell_def d_def
        sales_label format_examples)
  from r c l rows v show ?thesis by simp
qed

section \<open>Negative indicators in a run\<close>

lemma positions_distinct:
  assumes "distinct cs"
  shows "positions cs l = [] \<or> (\<exists>i. positions cs l = [i])"
proof (cases "positions cs l")
  case Nil
  then show ?thesis by simp
next
  case (Cons i rest)
  have d: "distinct (positions cs l)" by (simp add: positions_def)
  have "rest = []"
  proof (rule ccontr)
    assume "rest \<noteq> []"
    then obtain j where j: "j \<in> set rest" by (cases rest) auto
    from Cons d j have ne: "i \<noteq> j" by auto
    from Cons j have "i \<in> set (positions cs l)" "j \<in> set (positions cs l)" by simp_all
    then have "i < length cs" "j < length cs" "cs ! i = cs ! j"
      by (simp_all add: set_positions)
    with assms ne show False by (simp add: nth_eq_iff_index_eq)
  qed
  with Cons show ?thesis by simp
qed

lemma positions_member:
  "distinct cs \<Longrightarrow> l \<in> set cs \<Longrightarrow> \<exists>i. positions cs l = [i]"
proof -
  assume d: "distinct cs" and m: "l \<in> set cs"
  from m obtain k where "k < length cs" "cs ! k = l" by (auto simp: in_set_conv_nth)
  then have "k \<in> set (positions cs l)" by (simp add: set_positions)
  then have "positions cs l \<noteq> []" by auto
  with positions_distinct [OF d, of l] show ?thesis by simp
qed

lemma negate_column_total:
  "distinct (columns df) \<Longrightarrow> \<exists>df'. negate_column L df ind = Inr df' \<and> columns df' = columns df"
  using positions_distinct [of "columns df" ind]
  by (auto simp: negate_column_def)

lemma negate_loop_total:
  "distinct (columns dl) \<Longrightarrow> distinct (columns dt) \<Longrightarrow>
   \<exists>dl' dt'. negate_loop L sel dl dt = Inr (dl', dt')"
proof (induction sel arbitrary: dl dt)
  case Nil
  then show ?case by simp
next
  case (Cons ind rest)
  from negate_column_total [OF Cons.prems(2), of L ind] obtain t1 where
    t1: "negate_column L dt ind = Inr t1" "columns t1 = columns dt" by blast
  from negate_column_total [OF Cons.prems(1), of L ind] obtain l1 where
    l1: "negate_column L dl ind = Inr l1" "columns l1 = columns dl" by blast
  from Cons.prems t1 l1 have "distinct (columns l1)" "distinct (columns t1)" by simp_all
  from Cons.IH [OF this] t1 l1 show ?case by simp
qed

lemma process_columns:
  "fst (fst (process_excel_file L f cf w)) = Some df \<Longrightarrow>
   \<exists>inds. columns df = [OUTPUT_CITY_COL_NAME, OUTPUT_COUNTY_COL_NAME] @ inds"
  by (cases "f") (auto simp: process_excel_file_def Let_def split: prod.splits if_splits)

lemma extract_total:
  assumes "distinct (columns dl)" and "OUTPUT_COUNTY_COL_NAME \<in> set (columns dl)"
  shows "\<exists>inds cs. extract_indicators_and_counties dl dt = Inr (inds, cs)"
  using positions_member [OF assms]
  by (auto simp: extract_indicators_and_counties_def Let_def)

lemma run_processing_distinct:
  assumes pl: "fst (fst (process_excel_file L f XINZHOU w1)) = Some pl"
    and pt: "fst (fst (process_excel_file L g XINZHOU w2)) = Some pt"
    and dl: "distinct (columns pl)" and dt: "distinct (columns pt)"
  shows "\<exists>is cs pl' pt'. extract_indicators_and_counties pl pt = Inr (is, cs)
          \<and> negate_loop L (select_negative_indicators is t c) pl pt = Inr (pl', pt')
          \<and> inverted_once L (select_negative_indicators is t c) pl pl'
          \<and> inverted_once L (select_negative_indicators is t c) pt pt'
          \<and> run_processing L f g w1 w2 t c =
              (case calculate_growth_rates L pl' pt' is cs of
                 Inl e \<Rightarrow> Inl e
               | Inr res \<Rightarrow> Inr (Some (generate_output_table res cs)))"
proof -
  from process_columns [OF pl] have "OUTPUT_COUNTY_COL_NAME \<in> set (columns pl)" by auto
  from extract_total [OF dl this, of pt] obtain "is" cs where
    e: "extract_indicators_and_counties pl pt = Inr (is, cs)" by blast
  from negate_loop_total [OF dl dt, of L "select_negative_indicators is t c"] obtain pl' pt' where
    n: "negate_loop L (select_negative_indicators is t c) pl pt = Inr (pl', pt')" by blast
  from negate_loop_once [OF n select_distinct]
  have i: "inverted_once L (select_negative_indicators is t c) pl pl'"
    "inverted_once L (select_negative_indicators is t c) pt pt'" by simp_all
  have "run_processing L f g w1 w2 t c =
      (case calculate_growth_rates L pl' pt' is cs of
         Inl e \<Rightarrow> Inl e
       | Inr res \<Rightarrow> Inr (Some (generate_output_table res cs)))"
    by (simp add: run_processing_def pl pt e n)
  with e n i show ?thesis by blast
qed

lemma strip_xz [simp]: "strip XINZHOU = XINZHOU"
  by (simp add: strip_def lstrip_def rstrip_def match_len_def WHITESPACE_def XINZHOU_def)

lemma xz_extract:
  "extract_indicators_from_template lib0 (Some (xz_table v1 v2)) 1 = ([SALES], [4])"
  by (simp add: extract_indicators_from_template_def shape0_def shape1_def xz_table_def
      range_by_2_def iloc_cell_def cell_notna_def py_str_def remove_newlines_def SALES_def)

lemma xz_scan:
  "row_scan lib0 5 XINZHOU [4] (xz_table v1 v2) None [] =
     [[S XINZHOU, S ''c1'', F (Some v1)], [S XINZHOU, S ''c2'', F (Some v2)]]"
  by (simp add: xz_table_def city_name_of_def county_name_of_def iloc_cell_def cell_notna_def
      py_str_def row_data_def cell_to_numeric_def Let_def XINZHOU_def [symmetric])
     (simp add: XINZHOU_def)

lemma xz_process:
  "process_excel_file lib0 (Some (xz_table v1 v2)) XINZHOU True
     = ((Some (xz_frame v1 v2), [SALES]), None)"
proof -
  have "shape1 (xz_table v1 v2) = 5" by (simp add: shape1_def xz_table_def)
  moreover have "[SALES] \<noteq> []" by simp
  ultimately show ?thesis
    by (simp add: process_excel_file_def xz_extract xz_scan xz_frame_def)
qed


lemma xz_distinct: "distinct (columns (xz_frame v1 v2))"
  by (simp add: xz_frame_def OUTPUT_CITY_COL_NAME_def OUTPUT_COUNTY_COL_NAME_def SALES_def)

lemma xz_counties:
  "extract_indicators_and_counties (xz_frame v1 v2) dt = Inr ([SALES], [S ''c1'', S ''c2''])"
  by (simp add: extract_indicators_and_counties_def xz_frame_def sales_positions cell_at_def)
     (simp add: OUTPUT_CITY_COL_NAME_def OUTPUT_COUNTY_COL_NAME_def SALES_def)

lemma xz_select:
  "select_negative_indicators [SALES] (\<lambda>k. True) True = [SALES]"
  "select_negative_indicators [SALES] (\<lambda>k. False) True = []"
  by (simp_all add: select_negative_indicators_def)

lemma xz_negate:
  "negate_loop L [SALES] (xz_frame p1 p2) (xz_frame c1 c2)
     = Inr (xz_frame (- p1) (- p2), xz_frame (- c1) (- c2))"
  by (simp add: negate_column_def xz_frame_def sales_positions cell_at_def to_numeric_def
      negate_def)

lemma xz_pairs:
  "pair_entry L (xz_frame p1 p2) (xz_frame c1 c2) SALES (S ''c1'')
     = (case growth_rate (Some p1) (Some c1) of Inl e \<Rightarrow> Inl e | Inr g \<Rightarrow> Inr (Some (c1, p1, g)))"
  "pair_entry L (xz_frame p1 p2) (xz_frame c1 c2) SALES (S ''c2'')
     = (case growth_rate (Some p2) (Some c2) of Inl e \<Rightarrow> Inl e | Inr g \<Rightarrow> Inr (Some (c2, p2, g)))"
  by (simp_all add: pair_entry_def rows_of_county_def first_values_def xz_frame_def
      sales_positions cell_at_def to_numeric_def or_zero_def growth_rate_cases)

lemma xz_table_out:
  "(case calculate_growth_rates L (xz_frame p1 p2) (xz_frame c1 c2) [SALES] [S ''c1'', S ''c2''] of
      Inl e \<Rightarrow> Inl e
    | Inr res \<Rightarrow> Inr (Some (generate_output_table res [S ''c1'', S ''c2'']))) =
   (if p1 \<noteq> 0 \<and> p2 \<noteq> 0 then
      Inr (Some \<lparr>out_columns = [S LABEL_COLUMN, S ''c1'', S ''c2''],
                  out_rows =
                    [[[CHR 0xE9, CHR 0x94, CHR 0x80, CHR 0xE9, CHR 0x87, CHR 0x8F],
                      format_2f c1, format_2f c2],
                     [PREVIOUS_LABEL, format_2f p1, format_2f p2],
                     [GROWTH_LABEL, format_2f ((c1 - p1) / p1 * 100) @ ''%'',
                      format_2f ((c2 - p2) / p2 * 100) @ ''%'']]\<rparr>)
    else (case calculate_growth_rates L (xz_frame p1 p2) (xz_frame c1 c2) [SALES]
                 [S ''c1'', S ''c2''] of
            Inl e \<Rightarrow> Inl e
          | Inr res \<Rightarrow> Inr (Some (generate_output_table res [S ''c1'', S ''c2'']))))"
  by (simp add: calculate_growth_rates_def xz_pairs growth_rate_cases new_indicator_data_def
      generate_output_table_def current_row_def previous_row_def growth_row_def growth_cell_def
      sales_label)

lemma format_negative_examples:
  "format_2f (- 15) = ''-15.00''" "format_2f (- 8) = ''-8.00''"
  "format_2f (- 10) = ''-10.00''" "format_2f (- 20) = ''-20.00''"
  using format_2f_neg [of 15] format_2f_neg [of 8] format_2f_neg [of 10] format_2f_neg [of 20]
  by (simp_all add: digits_big digits_small digit_vals)

lemma dup_process:
  "process_excel_file lib0 (Some dup_table) XINZHOU True = ((Some dup_frame, [''x'', ''x'']), None)"
proof -
  have s: "shape1 dup_table = 7" by (simp add: shape1_def dup_table_def)
  have r: "range_by_2 4 7 = [4, 6]" by (simp add: range_by_2_def upt_rec)
  have e: "extract_indicators_from_template lib0 (Some dup_table) 1 = ([''x'', ''x''], [4, 6])"
    by (simp add: extract_indicators_from_template_def shape0_def s r)
       (simp add: dup_table_def iloc_cell_def cell_notna_def py_str_def remove_newlines_def)
  have sc: "row_scan lib0 7 XINZHOU [4, 6] dup_table None []
      = [[S XINZHOU, S ''c1'', F (Some 10), F (Some 1)]]"
    by (simp add: dup_table_def city_name_of_def county_name_of_def iloc_cell_def cell_notna_def
      py_str_def row_data_def cell_to_numeric_def Let_def)
       (simp add: XINZHOU_def)
  show ?thesis by (simp add: process_excel_file_def e s sc dup_frame_def)
qed

lemma dup_positions:
  "positions [OUTPUT_CITY_COL_NAME, OUTPUT_COUNTY_COL_NAME, ''x'', ''x''] OUTPUT_COUNTY_COL_NAME = [1]"
  "positions [OUTPUT_CITY_COL_NAME, OUTPUT_COUNTY_COL_NAME, ''x'', ''x''] ''x'' = [2, 3]"
  by (simp_all add: positions_def OUTPUT_CITY_COL_NAME_def OUTPUT_COUNTY_COL_NAME_def upt_rec)

lemma dup_extract:
  "extract_indicators_and_counties dup_frame dup_frame = Inr ([''x'', ''x''], [S ''c1''])"
  by (simp add: extract_indicators_and_counties_def dup_frame_def dup_positions cell_at_def)
     (simp add: OUTPUT_CITY_COL_NAME_def OUTPUT_COUNTY_COL_NAME_def)

lemma dup_negate: "negate_loop L [''x''] dup_frame dup_frame = Inl TypeError"
  by (simp add: negate_column_def dup_frame_def dup_positions)

lemma ticked_select:
  "select_negative_indicators [SALES] all_ticked True = [SALES]"
  "select_negative_indicators [SALES] none_ticked True = []"
  "select_negative_indicators [''x'', ''x''] all_ticked True = [''x'']"
  by (simp_all add: select_negative_indicators_def all_ticked_def none_ticked_def)

text \<open>
  C5, as stated, fails: the only way to select the same indicator twice is a header that
  offers its name twice, with both checkboxes ticked. The selection then holds the name
  once, but the two extracted frames hold two columns of that label, the inversion of line
  950 raises TypeError, and the run ends without inverting the column once.
\<close>

theorem C5_double_selection_counterexample:
  "fst (process_excel_file lib0 (Some dup_table) XINZHOU True) = (Some dup_frame, [''x'', ''x''])
   \<and> extract_indicators_and_counties dup_frame dup_frame = Inr ([''x'', ''x''], [S ''c1''])
   \<and> select_negative_indicators [''x'', ''x''] all_ticked True = [''x'']
   \<and> negate_loop lib0 [''x''] dup_frame dup_frame = Inl TypeError
   \<and> run_processing lib0 (Some dup_table) (Some dup_table) True True all_ticked True
       = Inl TypeError"
  by (simp add: run_processing_def dup_process dup_extract ticked_select dup_negate
      del: negate_loop.simps)

text \<open>
  C5, amended: the selection that the dialog returns never holds a name twice; whenever the
  inversion loop over it returns, every selected column of both frames is inverted exactly
  once and the other cells are as they were; when the labels of each frame are distinct the
  loop does return; and a run whose two files are processed into frames of distinct labels
  inverts both frames in this way and then computes the growth rates, and the table, from
  the inverted frames.
\<close>

theorem C5_inverted_once:
  "distinct (select_negative_indicators inds ticked confirmed)
   \<and> (negate_loop L (select_negative_indicators inds ticked confirmed) dl dt = Inr (dl', dt') \<longrightarrow>
        inverted_once L (select_negative_indicators inds ticked confirmed) dl dl'
        \<and> inverted_once L (select_negative_indicators inds ticked confirmed) dt dt')
   \<and> (distinct (columns dl) \<and> distinct (columns dt) \<longrightarrow>
        (\<exists>l' t'. negate_loop L (select_negative_indicators inds ticked confirmed) dl dt
                    = Inr (l', t')))
   \<and> (fst (fst (process_excel_file L f XINZHOU w1)) = Some pl
      \<and> fst (fst (process_excel_file L g XINZHOU w2)) = Some pt
      \<and> distinct (columns pl) \<and> distinct (columns pt) \<longrightarrow>
        (\<exists>is cs pl' pt'.
            extract_indicators_and_counties pl pt = Inr (is, cs)
          \<and> negate_loop L (select_negative_indicators is t c) pl pt = Inr (pl', pt')
          \<and> inverted_once L (select_negative_indicators is t c) pl pl'
          \<and> inverted_once L (select_negative_indicators is t c) pt pt'
          \<and> run_processing L f g w1 w2 t c =
              (case calculate_growth_rates L pl' pt' is cs of
                 Inl e \<Rightarrow> Inl e
               | Inr res \<Rightarrow> Inr (Some (generate_output_table res cs)))))"
  using select_distinct [of inds ticked confirmed]
    negate_loop_once [of L "select_negative_indicators inds ticked confirmed" dl dt dl' dt']
    negate_loop_total [of dl dt L "select_negative_indicators inds ticked confirmed"]
    run_processing_distinct [of L f w1 pl g w2 pt t c]
  by blast

theorem C5_inverted_once_witness:
  "fst (fst (process_excel_file lib0 (Some (xz_table 10 20)) XINZHOU True)) = Some (xz_frame 10 20)
   \<and> fst (fst (process_excel_file lib0 (Some (xz_table 15 8)) XINZHOU True)) = Some (xz_frame 15 8)
   \<and> distinct (columns (xz_frame 10 20)) \<and> distinct (columns (xz_frame 15 8))
   \<and> select_negative_indicators [SALES] all_ticked True = [SALES]
   \<and> negate_loop lib0 [SALES] (xz_frame 10 20) (xz_frame 15 8)
       = Inr (xz_frame (- 10) (- 20), xz_frame (- 15) (- 8))
   \<and> inverted_once lib0 [SALES] (xz_frame 10 20) (xz_frame (- 10) (- 20))
   \<and> inverted_once lib0 [SALES] (xz_frame 15 8) (xz_frame (- 15) (- 8))
   \<and> run_processing lib0 (Some (xz_table 10 20)) (Some (xz_table 15 8)) True True all_ticked True
       = Inr (Some \<lparr>out_columns = [S LABEL_COLUMN, S ''c1'', S ''c2''],
                    out_rows =
                      [[[CHR 0xE9, CHR 0x94, CHR 0x80, CHR 0xE9, CHR 0x87, CHR 0x8F],
                        ''-15.00'', ''-8.00''],
                       [PREVIOUS_LABEL, ''-10.00'', ''-20.00''],
                       [GROWTH_LABEL, ''50.00%'', ''-60.00%'']]\<rparr>)"
proof -
  have pl: "fst (fst (process_excel_file lib0 (Some (xz_table 10 20)) XINZHOU True))
      = Some (xz_frame 10 20)"
    and pt: "fst (fst (process_excel_file lib0 (Some (xz_table 15 8)) XINZHOU True))
      = Some (xz_frame 15 8)"
    by (simp_all add: xz_process)
  note d = xz_distinct [of 10 20] xz_distinct [of 15 8]
  note t = C5_inverted_once [of "[SALES]" all_ticked True lib0 "xz_frame 10 20" "xz_frame 15 8"
      "xz_frame (- 10) (- 20)" "xz_frame (- 15) (- 8)" "Some (xz_table 10 20)" True
      "xz_frame 10 20" "Some (xz_table 15 8)" True "xz_frame 15 8" all_ticked True]
  have n: "negate_loop lib0 [SALES] (xz_frame 10 20) (xz_frame 15 8)
       = Inr (xz_frame (- 10) (- 20), xz_frame (- 15) (- 8))"
    by (rule xz_negate)
  from t n have i: "inverted_once lib0 [SALES] (xz_frame 10 20) (xz_frame (- 10) (- 20))"
    "inverted_once lib0 [SALES] (xz_frame 15 8) (xz_frame (- 15) (- 8))"
    by (simp_all add: ticked_select del: negate_loop.simps)
  from t pl pt d obtain "is" cs pl' pt' where
    e: "extract_indicators_and_counties (xz_frame 10 20) (xz_frame 15 8) = Inr (is, cs)" and
    m: "negate_loop lib0 (select_negative_indicators is all_ticked True) (xz_frame 10 20)
          (xz_frame 15 8) = Inr (pl', pt')" and
    r: "run_processing lib0 (Some (xz_table 10 20)) (Some (xz_table 15 8)) True True all_ticked True
         = (case calculate_growth_rates lib0 pl' pt' is cs of
              Inl e \<Rightarrow> Inl e
            | Inr res \<Rightarrow> Inr (Some (generate_output_table res cs)))"
    by blast
  from e have ic: "is = [SALES]" "cs = [S ''c1'', S ''c2'']" by (simp_all add: xz_counties)
  from m ic have f: "pl' = xz_frame (- 10) (- 20)" "pt' = xz_frame (- 15) (- 8)"
    by (simp_all add: ticked_select xz_negate del: negate_loop.simps)
  have "run_processing lib0 (Some (xz_table 10 20)) (Some (xz_table 15 8)) True True all_ticked True
       = Inr (Some \<lparr>out_columns = [S LABEL_COLUMN, S ''c1'', S ''c2''],
                    out_rows =
                      [[[CHR 0xE9, CHR 0x94, CHR 0x80, CHR 0xE9, CHR 0x87, CHR 0x8F],
                        ''-15.00'', ''-8.00''],
                       [PREVIOUS_LABEL, ''-10.00'', ''-20.00''],
                       [GROWTH_LABEL, ''50.00%'', ''-60.00%'']]\<rparr>)"
    unfolding r ic f
    by (simp add: xz_table_out format_negative_examples format_examples)
  with pl pt d n i show ?thesis by (simp add: ticked_select)
qed

end
